theory Spec2Isabelle
  imports Complex_Main
begin

section \<open>Sky Guide AR: coordinate transforms, position engine and gaze matcher\<close>

text \<open>
  A shallow embedding of \<^verbatim>\<open>AstroMath.ts\<close>, \<^verbatim>\<open>SkyEngine.ts\<close>, the highlight
  state of \<^verbatim>\<open>SkyRenderer.ts\<close> and \<^verbatim>\<open>GazeAndHandController.ts\<close>.

  Numbers. A TypeScript \<^verbatim>\<open>number\<close> is modelled as a \<^typ>\<open>real\<close>. Where an
  operation of the source can leave the reals the model says so instead of relying on the
  value HOL gives a total function there: the quotient \<^verbatim>\<open>0 / 0\<close> and the square
  root of a negative number are the not-a-number value, written \<^term>\<open>None\<close> in the
  type \<^typ>\<open>real option\<close>, and a quotient \<^verbatim>\<open>x / 0\<close> with \<^verbatim>\<open>x\<close> non-zero is an
  infinity, which the clamp that follows it in the source turns into \<open>1\<close> or \<open>-1\<close>.

  Rounding. In two places what the source does depends on the rounding of its double
  arithmetic: the haversine term of the two distance functions, which rounding can make
  negative, and the dwell time, which is a running sum compared with \<open>0.5\<close>. There every
  operation is followed by the rounding \<open>rnd\<close> of the arithmetic, and the sine and cosine
  are the approximations \<open>fsin\<close> and \<open>fcos\<close> of the arithmetic; the arithmetic is a
  parameter of which the definitions assume nothing. Everywhere else the operations are
  the mathematical ones, without rounding.
\<close>

subsection \<open>AstroMath.ts\<close>

type_synonym number = "real option"
  \<comment> \<open>a number that may be not-a-number: \<open>None\<close> is NaN\<close>

text \<open>The double arithmetic: \<open>rnd v\<close> is the double that an operation with the exact
  result \<open>v\<close> returns, \<open>fsin\<close> and \<open>fcos\<close> are \<^verbatim>\<open>Math.sin\<close> and \<^verbatim>\<open>Math.cos\<close>.
  \<open>exactArith\<close> is the arithmetic without rounding.\<close>

record arith =
  rnd :: "real \<Rightarrow> real"
  fsin :: "real \<Rightarrow> real"
  fcos :: "real \<Rightarrow> real"

definition exactArith :: arith where
  "exactArith = \<lparr>rnd = (\<lambda>v. v), fsin = sin, fcos = cos\<rparr>"

definition DEG_TO_RAD :: real where
  "DEG_TO_RAD = pi / 180"

definition TWO_PI :: real where
  "TWO_PI = 2 * pi"

text \<open>The remainder operator \<^verbatim>\<open>%\<close> of the language: the quotient is truncated
  towards zero, so the result has the sign of the dividend.\<close>

definition trunc :: "real \<Rightarrow> int" where
  "trunc x = (if 0 \<le> x then \<lfloor>x\<rfloor> else \<lceil>x\<rceil>)"

definition rem :: "real \<Rightarrow> real \<Rightarrow> real" where
  "rem x m = x - m * of_int (trunc (x / m))"

text \<open>\<^verbatim>\<open>julianDate(date)\<close>: the argument is \<^verbatim>\<open>date.getTime()\<close>, milliseconds
  since the epoch.\<close>

definition julianDate :: "real \<Rightarrow> real" where
  "julianDate ms = ms / 86400000 + 2440587.5"

definition gmst :: "real \<Rightarrow> real" where
  "gmst jd =
     (let t = jd - 2451545.0;
          f = t - of_int \<lfloor>t\<rfloor> + 0.5;
          theta = TWO_PI * (f + 0.7790572732640 + 0.00273781191135448 * t)
      in rem (rem theta TWO_PI + TWO_PI) TWO_PI)"

definition localSiderealTime :: "real \<Rightarrow> real \<Rightarrow> real" where
  "localSiderealTime gmstRad longitudeRad =
     rem (rem (gmstRad + longitudeRad) TWO_PI + TWO_PI) TWO_PI"

text \<open>\<^verbatim>\<open>Math.max(-1, Math.min(1, n / d))\<close> with the division of the language:
  \<^verbatim>\<open>0 / 0\<close> is NaN and stays NaN through \<^verbatim>\<open>Math.min\<close> and \<^verbatim>\<open>Math.max\<close>;
  a non-zero numerator over \<open>0\<close> is an infinity of the numerator's sign.\<close>

definition clampedQuotient :: "real \<Rightarrow> real \<Rightarrow> number" where
  "clampedQuotient n d =
     (if d \<noteq> 0 then Some (max (-1) (min 1 (n / d)))
      else if 0 < n then Some 1
      else if n < 0 then Some (-1)
      else None)"

definition equatorialToHorizontal :: "real \<Rightarrow> real \<Rightarrow> real \<Rightarrow> real \<Rightarrow> real \<times> number" where
  "equatorialToHorizontal raRad decRad lstRad latRad =
     (let ha = lstRad - raRad;
          sinLat = sin latRad;
          cosLat = cos latRad;
          sinDec = sin decRad;
          cosDec = cos decRad;
          cosHA = cos ha;
          sinAlt = sinLat * sinDec + cosLat * cosDec * cosHA;
          alt = arcsin (max (-1) (min 1 sinAlt));
          cosAlt = cos alt
      in if \<bar>cosAlt\<bar> < 1 / 10 ^ 10 then (alt, Some 0)
         else
           (let az = map_option arccos
                       (clampedQuotient (sinDec - sinLat * sinAlt) (cosLat * cosAlt))
            in if 0 < sin ha then (alt, map_option (\<lambda>a. TWO_PI - a) az)
               else (alt, az)))"

text \<open>\<^verbatim>\<open>horizontalToCartesian\<close>: an azimuth that is NaN makes the two horizontal
  components NaN; the vertical component does not depend on it.\<close>

definition horizontalToCartesian :: "real \<Rightarrow> number \<Rightarrow> real \<Rightarrow> number \<times> real \<times> number" where
  "horizontalToCartesian altRad azRad radius =
     (let cosAlt = cos altRad;
          x = map_option (\<lambda>az. radius * cosAlt * sin az) azRad;
          y = radius * sin altRad;
          z = map_option (\<lambda>az. - radius * cosAlt * cos az) azRad
      in (x, y, z))"

definition magnitudeToAlpha :: "real \<Rightarrow> real" where
  "magnitudeToAlpha mag = max 0.15 (1.0 - (mag + 1.5) / 7.5)"

definition magnitudeToScale :: "real \<Rightarrow> real" where
  "magnitudeToScale mag = max 0.5 (3.0 - (mag + 1.5) * 0.385)"

text \<open>The two distance functions, in the arithmetic \<open>A\<close>. \<^verbatim>\<open>Math.sqrt\<close> of a negative
  number is NaN, and so is \<^verbatim>\<open>Math.asin\<close> outside \<open>[-1, 1]\<close>; NaN stays NaN through
  \<^verbatim>\<open>Math.asin\<close> and the product.\<close>

definition angularDistance :: "arith \<Rightarrow> real \<Rightarrow> real \<Rightarrow> real \<Rightarrow> real \<Rightarrow> number" where
  "angularDistance A ra1 dec1 ra2 dec2 =
     (let dDec = rnd A (dec2 - dec1);
          dRA = rnd A (ra2 - ra1);
          a = rnd A (rnd A ((fsin A (rnd A (dDec / 2)))\<^sup>2)
                     + rnd A (rnd A (fcos A dec1 * fcos A dec2)
                                * rnd A ((fsin A (rnd A (dRA / 2)))\<^sup>2)));
          m = min 1 a
      in if m < 0 then None
         else (let r = rnd A (sqrt m)
               in if r < - 1 \<or> 1 < r then None else Some (2 * arcsin r)))"

definition angularDistanceAltAz :: "arith \<Rightarrow> real \<Rightarrow> real \<Rightarrow> real \<Rightarrow> real \<Rightarrow> number" where
  "angularDistanceAltAz A alt1 az1 alt2 az2 =
     (let dAlt = rnd A (alt2 - alt1);
          dAz = rnd A (az2 - az1);
          a = rnd A (rnd A ((fsin A (rnd A (dAlt / 2)))\<^sup>2)
                     + rnd A (rnd A (fcos A alt1 * fcos A alt2)
                                * rnd A ((fsin A (rnd A (dAz / 2)))\<^sup>2)));
          m = min 1 a
      in if m < 0 then None
         else (let r = rnd A (sqrt m)
               in if r < - 1 \<or> 1 < r then None else Some (2 * arcsin r)))"

definition smoothHeading :: "real \<Rightarrow> real \<Rightarrow> real \<Rightarrow> real" where
  "smoothHeading current target alpha =
     (let diff0 = target - current;
          diff1 = (if 180 < diff0 then diff0 - 360 else diff0);
          diff = (if diff1 < - 180 then diff1 + 360 else diff1);
          result0 = current + alpha * diff;
          result1 = (if result0 < 0 then result0 + 360 else result0)
      in if 360 \<le> result1 then result1 - 360 else result1)"

subsection \<open>Library functions\<close>

text \<open>\<^verbatim>\<open>Math.atan2(y, x)\<close> on reals (the sign of a zero is not modelled).\<close>

definition atan2 :: "real \<Rightarrow> real \<Rightarrow> real" where
  "atan2 y x =
     (if 0 < x then arctan (y / x)
      else if x < 0 then (if 0 \<le> y then arctan (y / x) + pi else arctan (y / x) - pi)
      else if 0 < y then pi / 2
      else if y < 0 then - (pi / 2)
      else 0)"

subsection \<open>Types.ts\<close>

record StarRecord =
  hip :: int
  ra :: real
  dec :: real
  mag :: real
  bv :: real
  name :: string
  con :: string

record ConstellationRecord =
  abbr :: string
  name :: string
  lines :: "int list list"
  centroidRA :: real
  centroidDec :: real

record StarPosition3D =
  hip :: int
  x :: number
  y :: real
  z :: number
  mag :: real
  bv :: real
  name :: string

record ObserverState =
  latitude :: real
  longitude :: real
  lstRadians :: real
  headingDeg :: real
  timestamp :: real

subsection \<open>SkyEngine.ts\<close>

text \<open>
  The module's variables are the fields of one record. The catalog \<^verbatim>\<open>STARS\<close> comes
  from \<^verbatim>\<open>StarData.ts\<close> and is a parameter here. \<open>allocations\<close> is not a variable of
  the source: it counts how often \<^verbatim>\<open>new Array(STARS.length)\<close> has run, so that
  keeping the same array object is a statement about the state.
\<close>

record engine =
  observer :: ObserverState
  starPositions :: "StarPosition3D list"
  initialized :: bool
  rawHeadingDeg :: real
  allocations :: nat

definition initialEngine :: engine where
  "initialEngine =
     \<lparr>observer = \<lparr>latitude = 0, longitude = 0, lstRadians = 0, headingDeg = 0, timestamp = 0\<rparr>,
      starPositions = [],
      initialized = False,
      rawHeadingDeg = 0,
      allocations = 0\<rparr>"

definition SPHERE_RADIUS :: real where
  "SPHERE_RADIUS = 500"

text \<open>The two callbacks that \<^verbatim>\<open>initLocation\<close> registers: a compass sample and a
  position fix (\<open>nowMs\<close> is \<^verbatim>\<open>Date.now()\<close>).\<close>

definition onNorthAlignedOrientationUpdate :: "real \<Rightarrow> engine \<Rightarrow> engine" where
  "onNorthAlignedOrientationUpdate heading e =
     (let e1 = e\<lparr>rawHeadingDeg := heading\<rparr>
      in e1\<lparr>observer := (observer e1)
            \<lparr>headingDeg := smoothHeading (headingDeg (observer e1)) (rawHeadingDeg e1) 0.15\<rparr>\<rparr>)"

definition onCurrentPosition :: "real \<Rightarrow> real \<Rightarrow> real \<Rightarrow> engine \<Rightarrow> engine" where
  "onCurrentPosition posLatitude posLongitude nowMs e =
     e\<lparr>observer := (observer e)
          \<lparr>latitude := posLatitude * (pi / 180),
           longitude := posLongitude * (pi / 180),
           timestamp := nowMs\<rparr>,
       initialized := True\<rparr>"

definition setObserverLocation :: "real \<Rightarrow> real \<Rightarrow> engine \<Rightarrow> engine" where
  "setObserverLocation latDeg lonDeg e =
     e\<lparr>observer := (observer e)
          \<lparr>latitude := latDeg * (pi / 180), longitude := lonDeg * (pi / 180)\<rparr>,
       initialized := True\<rparr>"

definition emptyPosition :: StarPosition3D where
  "emptyPosition = \<lparr>hip = 0, x = Some 0, y = 0, z = Some 0, mag = 0, bv = 0, name = ''''\<rparr>"

text \<open>The body of the second loop of \<^verbatim>\<open>updateStarPositions\<close>: entry \<open>i\<close> of the
  buffer is overwritten in place from catalog entry \<open>i\<close>.\<close>

definition writePosition ::
    "StarRecord list \<Rightarrow> real \<Rightarrow> real \<Rightarrow> nat \<Rightarrow> StarPosition3D list \<Rightarrow> StarPosition3D list" where
  "writePosition STARS lstRad lat i buf =
     (let star = STARS ! i;
          (alt, az) = equatorialToHorizontal (StarRecord.ra star) (StarRecord.dec star) lstRad lat;
          (px, py, pz) = horizontalToCartesian alt az SPHERE_RADIUS;
          sp = buf ! i
      in buf[i := sp\<lparr>hip := StarRecord.hip star,
                       x := px,
                       y := py,
                       z := pz,
                       mag := StarRecord.mag star,
                       bv := StarRecord.bv star,
                       name := StarRecord.name star\<rparr>])"

definition updateStarPositions :: "StarRecord list \<Rightarrow> real \<Rightarrow> engine \<Rightarrow> engine" where
  "updateStarPositions STARS nowMs e =
     (if \<not> initialized e then e
      else
        (let jd = julianDate nowMs;
             gmstRad = gmst jd;
             lstRad = localSiderealTime gmstRad (longitude (observer e));
             e1 = e\<lparr>observer := (observer e)\<lparr>lstRadians := lstRad\<rparr>\<rparr>;
             e2 = (if length (starPositions e1) \<noteq> length STARS
                   then e1\<lparr>starPositions := replicate (length STARS) emptyPosition,
                           allocations := Suc (allocations e1)\<rparr>
                   else e1);
             lat = latitude (observer e2)
         in e2\<lparr>starPositions :=
                 fold (writePosition STARS lstRad lat) [0 ..< length STARS] (starPositions e2)\<rparr>))"

subsection \<open>SkyRenderer.ts (highlight state) and GazeAndHandController.ts\<close>

text \<open>
  The gaze controller's variables and the renderer's \<^verbatim>\<open>highlightedConstellation\<close> are
  the fields of one record. A callback is modelled by whether it is registered; \<open>calls\<close>
  lists, oldest first, the calls that leave the controller: each call of
  \<^verbatim>\<open>Renderer.setHighlightedConstellation\<close> and each call of the deselect callback.
  \<^verbatim>\<open>CONSTELLATIONS\<close> comes from \<^verbatim>\<open>ConstellationData.ts\<close> and is a parameter.
\<close>

datatype call = SetHighlighted string | Deselected

type_synonym SceneObject = nat

record gaze =
  camera :: "SceneObject option"
  onConstellationSelected :: bool
  onConstellationDeselected :: bool
  currentGazeConstellation :: string
  gazeHoldTime :: real
  highlightedConstellation :: string
  calls :: "call list"

definition initialGaze :: gaze where
  "initialGaze =
     \<lparr>camera = None,
      onConstellationSelected = False,
      onConstellationDeselected = False,
      currentGazeConstellation = '''',
      gazeHoldTime = 0,
      highlightedConstellation = '''',
      calls = []\<rparr>"

definition GAZE_THRESHOLD_RAD :: real where
  "GAZE_THRESHOLD_RAD = 8.0 * (pi / 180)"

definition GAZE_HOLD_DELAY :: real where
  "GAZE_HOLD_DELAY = 0.5"

text \<open>\<^verbatim>\<open>init\<close>, without the pinch handlers it registers with the gesture module.\<close>

definition init :: "SceneObject \<Rightarrow> gaze \<Rightarrow> gaze" where
  "init cameraObj g =
     g\<lparr>camera := Some cameraObj,
       onConstellationSelected := True,
       onConstellationDeselected := True\<rparr>"

definition setHighlightedConstellation :: "string \<Rightarrow> gaze \<Rightarrow> gaze" where
  "setHighlightedConstellation a g =
     g\<lparr>highlightedConstellation := a, calls := calls g @ [SetHighlighted a]\<rparr>"

definition clearGaze :: "gaze \<Rightarrow> gaze" where
  "clearGaze g =
     (if currentGazeConstellation g \<noteq> '''' then
        (let g1 = g\<lparr>currentGazeConstellation := '''', gazeHoldTime := 0\<rparr>;
             g2 = setHighlightedConstellation '''' g1
         in if onConstellationDeselected g2 then g2\<lparr>calls := calls g2 @ [Deselected]\<rparr> else g2)
      else g)"

text \<open>What one call of \<^verbatim>\<open>updateGaze\<close> reads from outside the controller: its
  argument, the camera's forward vector and the engine's state.\<close>

record tick =
  deltaTime :: real
  camForward :: "real \<times> real \<times> real"
  eng :: engine

text \<open>Lines 70 to 110 of \<^verbatim>\<open>updateGaze\<close>: the two early returns are \<open>None\<close>,
  otherwise the gaze altitude and azimuth.\<close>

definition gazeDirection :: "tick \<Rightarrow> gaze \<Rightarrow> (real \<times> real) option" where
  "gazeDirection t g =
     (if camera g = None \<or> \<not> initialized (eng t) then None
      else
        (let (fx, fy, fz) = camForward t;
             heading = headingDeg (observer (eng t));
             headingRad = heading * (pi / 180);
             cosH = cos (- headingRad);
             sinH = sin (- headingRad);
             skyX = fx * cosH - fz * sinH;
             skyZ = fx * sinH + fz * cosH;
             skyY = fy;
             len = sqrt (skyX * skyX + skyY * skyY + skyZ * skyZ)
         in if len < 0.001 then None
            else
              (let gazeAlt = arcsin (skyY / len);
                   gazeAz0 = atan2 skyX (- skyZ);
                   gazeAz = (if gazeAz0 < 0 then gazeAz0 + 2 * pi else gazeAz0)
               in Some (gazeAlt, gazeAz))))"

text \<open>The loop over \<^verbatim>\<open>CONSTELLATIONS\<close> (lines 122 to 138), on the pair
  \<open>(closestAbbr, closestDist)\<close>; \<open>d\<close> is the source's \<^verbatim>\<open>dist\<close>. The distance of a
  centroid whose azimuth is NaN is NaN, and a distance that is NaN compares false.\<close>

fun closestLoop ::
    "arith \<Rightarrow> ConstellationRecord list \<Rightarrow> ObserverState \<Rightarrow> real \<Rightarrow> real \<Rightarrow> string \<times> real
       \<Rightarrow> string \<times> real" where
  "closestLoop A [] obs gazeAlt gazeAz acc = acc"
| "closestLoop A (c # cs) obs gazeAlt gazeAz (closestAbbr, closestDist) =
     (let (cAlt, cAz) = equatorialToHorizontal (centroidRA c) (centroidDec c)
                          (lstRadians obs) (latitude obs)
      in if cAlt < 0 then closestLoop A cs obs gazeAlt gazeAz (closestAbbr, closestDist)
         else
           (case Option.bind cAz (angularDistanceAltAz A gazeAlt gazeAz cAlt) of
              None \<Rightarrow> closestLoop A cs obs gazeAlt gazeAz (closestAbbr, closestDist)
            | Some d \<Rightarrow>
                if d < closestDist then closestLoop A cs obs gazeAlt gazeAz (abbr c, d)
                else closestLoop A cs obs gazeAlt gazeAz (closestAbbr, closestDist)))"

text \<open>\<^verbatim>\<open>updateGaze\<close>. The dwell is a double: \<^verbatim>\<open>gazeHoldTime += deltaTime\<close>
  stores the rounded sum.\<close>

definition updateGaze :: "arith \<Rightarrow> ConstellationRecord list \<Rightarrow> tick \<Rightarrow> gaze \<Rightarrow> gaze" where
  "updateGaze A CONSTELLATIONS t g =
     (case gazeDirection t g of
        None \<Rightarrow> g
      | Some (gazeAlt, gazeAz) \<Rightarrow>
          if gazeAlt < - 5 * (pi / 180) then clearGaze g
          else
            (let obs = observer (eng t);
                 closestAbbr = fst (closestLoop A CONSTELLATIONS obs gazeAlt gazeAz
                                      ('''', GAZE_THRESHOLD_RAD))
             in if closestAbbr \<noteq> currentGazeConstellation g then
                  (if closestAbbr = '''' then clearGaze g
                   else g\<lparr>currentGazeConstellation := closestAbbr, gazeHoldTime := 0\<rparr>)
                else if closestAbbr \<noteq> '''' then
                  (let g1 = g\<lparr>gazeHoldTime := rnd A (gazeHoldTime g + deltaTime t)\<rparr>
                   in if GAZE_HOLD_DELAY \<le> gazeHoldTime g1
                      then setHighlightedConstellation closestAbbr g1
                      else g1)
                else g))"

text \<open>A run of the controller: one call of \<^verbatim>\<open>updateGaze\<close> per tick, in order.\<close>

definition runGaze :: "arith \<Rightarrow> ConstellationRecord list \<Rightarrow> tick list \<Rightarrow> gaze \<Rightarrow> gaze" where
  "runGaze A CONSTELLATIONS ts g = fold (updateGaze A CONSTELLATIONS) ts g"

subsection \<open>Vocabulary of the properties\<close>

text \<open>What round-to-nearest gives: \<open>0\<close> and \<open>1\<close> are doubles, and the rounding is
  monotone.\<close>

definition rounds :: "arith \<Rightarrow> bool" where
  "rounds A \<longleftrightarrow> rnd A 0 = 0 \<and> rnd A 1 = 1 \<and> (\<forall>u v. u \<le> v \<longrightarrow> rnd A u \<le> rnd A v)"

text \<open>The haversine term as the two distance functions compute it: the value of
  \<^verbatim>\<open>a\<close> for the longitudes (right ascensions, azimuths) \<open>lon1\<close>, \<open>lon2\<close> and the
  latitudes (declinations, altitudes) \<open>lat1\<close>, \<open>lat2\<close>.\<close>

definition haversineTerm :: "arith \<Rightarrow> real \<Rightarrow> real \<Rightarrow> real \<Rightarrow> real \<Rightarrow> real" where
  "haversineTerm A lon1 lat1 lon2 lat2 =
     rnd A (rnd A ((fsin A (rnd A (rnd A (lat2 - lat1) / 2)))\<^sup>2)
            + rnd A (rnd A (fcos A lat1 * fcos A lat2)
                       * rnd A ((fsin A (rnd A (rnd A (lon2 - lon1) / 2)))\<^sup>2)))"

text \<open>The horizontal coordinates of a region's centroid and its haversine distance from
  the gaze direction: the two values the loop computes for each region.\<close>

definition centroidHorizontal :: "ObserverState \<Rightarrow> ConstellationRecord \<Rightarrow> real \<times> number" where
  "centroidHorizontal obs c =
     equatorialToHorizontal (centroidRA c) (centroidDec c) (lstRadians obs) (latitude obs)"

definition centroidDistance ::
    "arith \<Rightarrow> ObserverState \<Rightarrow> real \<Rightarrow> real \<Rightarrow> ConstellationRecord \<Rightarrow> number" where
  "centroidDistance A obs gazeAlt gazeAz c =
     (case centroidHorizontal obs c of
        (cAlt, cAz) \<Rightarrow> Option.bind cAz (angularDistanceAltAz A gazeAlt gazeAz cAlt))"

text \<open>The candidate of a tick, read off \<^verbatim>\<open>updateGaze\<close>: \<open>None\<close> when the call
  returns before looking for one, the empty code when there is no candidate (the gaze is
  below the margin, or the loop ends with \<^verbatim>\<open>closestAbbr\<close> empty), otherwise the
  code the loop ends with.\<close>

definition gazeCandidate ::
    "arith \<Rightarrow> ConstellationRecord list \<Rightarrow> tick \<Rightarrow> gaze \<Rightarrow> string option" where
  "gazeCandidate A CONSTELLATIONS t g =
     (case gazeDirection t g of
        None \<Rightarrow> None
      | Some (gazeAlt, gazeAz) \<Rightarrow>
          if gazeAlt < - 5 * (pi / 180) then Some ''''
          else Some (fst (closestLoop A CONSTELLATIONS (observer (eng t)) gazeAlt gazeAz
                            ('''', GAZE_THRESHOLD_RAD))))"

text \<open>On tick \<open>t\<close> the gaze is matched to the region \<open>c\<close>: the tick computes a gaze direction
  that is not below the margin, \<open>c\<close> is a region of the catalog whose centroid is not below
  the horizon, its distance from the gaze direction is below the threshold, and every other
  region whose centroid is not below the horizon is farther away (or its distance is
  NaN).\<close>

definition pointsAt ::
    "arith \<Rightarrow> ConstellationRecord list \<Rightarrow> tick \<Rightarrow> gaze \<Rightarrow> ConstellationRecord \<Rightarrow> bool" where
  "pointsAt A CONSTELLATIONS t g c \<longleftrightarrow>
     (case gazeDirection t g of
        None \<Rightarrow> False
      | Some (gazeAlt, gazeAz) \<Rightarrow>
          \<not> gazeAlt < - 5 * (pi / 180) \<and> c \<in> set CONSTELLATIONS \<and>
          0 \<le> fst (centroidHorizontal (observer (eng t)) c) \<and>
          (case centroidDistance A (observer (eng t)) gazeAlt gazeAz c of
             None \<Rightarrow> False
           | Some d \<Rightarrow>
               d < GAZE_THRESHOLD_RAD \<and>
               (\<forall>c' \<in> set CONSTELLATIONS.
                  c' \<noteq> c \<longrightarrow> 0 \<le> fst (centroidHorizontal (observer (eng t)) c') \<longrightarrow>
                  (case centroidDistance A (observer (eng t)) gazeAlt gazeAz c' of
                     None \<Rightarrow> True
                   | Some d' \<Rightarrow> d < d'))))"

text \<open>The values \<^verbatim>\<open>gazeHoldTime\<close> takes on successive ticks that add the elapsed
  times \<open>ds\<close> to a dwell of \<open>h\<close>, in the arithmetic \<open>A\<close>.\<close>

fun holdTimes :: "arith \<Rightarrow> real \<Rightarrow> real list \<Rightarrow> real list" where
  "holdTimes A h [] = []"
| "holdTimes A h (d # ds) = rnd A (h + d) # holdTimes A (rnd A (h + d)) ds"

text \<open>How many of these ticks call the highlight setter.\<close>

definition confirmations :: "arith \<Rightarrow> real \<Rightarrow> real list \<Rightarrow> nat" where
  "confirmations A h ds = length (filter (\<lambda>v. GAZE_HOLD_DELAY \<le> v) (holdTimes A h ds))"

text \<open>Entry \<open>sp\<close> of the output carries the identifier, magnitude, colour index and
  name of catalog entry \<open>star\<close>.\<close>

definition copiedFrom :: "StarRecord \<Rightarrow> StarPosition3D \<Rightarrow> bool" where
  "copiedFrom star sp \<longleftrightarrow>
     StarPosition3D.hip sp = StarRecord.hip star \<and>
     StarPosition3D.mag sp = StarRecord.mag star \<and>
     StarPosition3D.bv sp = StarRecord.bv star \<and>
     StarPosition3D.name sp = StarRecord.name star"

subsection \<open>A concrete scene\<close>

text \<open>An observer at latitude and longitude \<open>0\<close> with sidereal time \<open>0\<close> and heading \<open>0\<close>, a
  catalog of one star, regions whose centroids are then on the northern horizon, on the
  eastern horizon and at the nadir, and a camera that looks north, east or down. The
  elapsed times that are added to a dwell with it are multiples of \<open>1/8\<close> s whose running
  sums stay below \<open>2\<close>, so that the double addition of the source gives these sums
  exactly.\<close>

definition sirius :: StarRecord where
  "sirius = \<lparr>StarRecord.hip = 32349, ra = 0, dec = 0, StarRecord.mag = - 1.46,
              StarRecord.bv = 0, StarRecord.name = ''Sirius'', con = ''CMa''\<rparr>"

definition sceneEngine :: engine where
  "sceneEngine = setObserverLocation 0 0 initialEngine"

definition northRegion :: ConstellationRecord where
  "northRegion = \<lparr>abbr = ''UMI'', ConstellationRecord.name = ''Ursa Minor'', lines = [],
                   centroidRA = 0, centroidDec = pi / 2\<rparr>"

definition eastRegion :: ConstellationRecord where
  "eastRegion = \<lparr>abbr = ''AQL'', ConstellationRecord.name = ''Aquila'', lines = [],
                  centroidRA = pi / 2, centroidDec = 0\<rparr>"

definition nadirRegion :: ConstellationRecord where
  "nadirRegion = \<lparr>abbr = ''CRU'', ConstellationRecord.name = ''Crux'', lines = [],
                   centroidRA = pi, centroidDec = 0\<rparr>"

definition sceneRegions :: "ConstellationRecord list" where
  "sceneRegions = [northRegion, eastRegion]"

definition lookNorth :: "real \<Rightarrow> tick" where
  "lookNorth dt = \<lparr>deltaTime = dt, camForward = (0, 0, - 1), eng = sceneEngine\<rparr>"

definition lookEast :: "real \<Rightarrow> tick" where
  "lookEast dt = \<lparr>deltaTime = dt, camForward = (1, 0, 0), eng = sceneEngine\<rparr>"

definition lookDown :: "real \<Rightarrow> tick" where
  "lookDown dt = \<lparr>deltaTime = dt, camForward = (0, - 1, 0), eng = sceneEngine\<rparr>"

definition sceneGaze :: gaze where
  "sceneGaze = init 0 initialGaze"

text \<open>An arithmetic that is exact except for the cosine of \<open>1\<close>, for which it returns the
  double that \<^verbatim>\<open>Math.cos(1)\<close> returns: \<open>1216652631687587 / 2^51\<close>, printed
  \<^verbatim>\<open>0.5403023058681398\<close>.\<close>

definition cosUpArith :: arith where
  "cosUpArith =
     \<lparr>rnd = (\<lambda>v. v), fsin = sin,
      fcos = (\<lambda>v. if v = 1 then 1216652631687587 / 2 ^ 51 else cos v)\<rparr>"

section \<open>Properties\<close>

subsection \<open>Magnitude to alpha and scale\<close>

text \<open>
  C4, as stated: for every magnitude, \<^verbatim>\<open>magnitudeToAlpha\<close> lies in \<open>[0.15, 1.0]\<close> and
  \<^verbatim>\<open>magnitudeToScale\<close> in \<open>[0.5, 3.0]\<close>. The functions have a floor and no ceiling: at
  magnitude \<open>-9\<close> the alpha is \<open>2\<close> and the scale \<open>5.8875\<close>.
\<close>

theorem magnitude_ceiling_counterexample:
  "magnitudeToAlpha (- 9) = 2 \<and> \<not> magnitudeToAlpha (- 9) \<le> 1.0 \<and>
   magnitudeToScale (- 9) = 5.8875 \<and> \<not> magnitudeToScale (- 9) \<le> 3.0"
  by (simp add: magnitudeToAlpha_def magnitudeToScale_def)

text \<open>
  C4, amended: for every magnitude the alpha is at least \<open>0.15\<close> and the scale at least
  \<open>0.5\<close>; the alpha is at most \<open>1.0\<close>, and the scale at most \<open>3.0\<close>, exactly for the
  magnitudes that are at least \<open>-1.5\<close>.
\<close>

theorem magnitude_visual_bounds:
  "0.15 \<le> magnitudeToAlpha m \<and> 0.5 \<le> magnitudeToScale m \<and>
   (magnitudeToAlpha m \<le> 1.0 \<longleftrightarrow> - 1.5 \<le> m) \<and>
   (magnitudeToScale m \<le> 3.0 \<longleftrightarrow> - 1.5 \<le> m)"
  unfolding magnitudeToAlpha_def magnitudeToScale_def by auto

theorem magnitude_visual_bounds_witness:
  "- 1.5 \<le> (- 1.46 :: real) \<and>
   0.15 \<le> magnitudeToAlpha (- 1.46) \<and> magnitudeToAlpha (- 1.46) \<le> 1.0 \<and>
   0.5 \<le> magnitudeToScale (- 1.46) \<and> magnitudeToScale (- 1.46) \<le> 3.0"
proof -
  have h: "- 1.5 \<le> (- 1.46 :: real)" by simp
  show ?thesis using h magnitude_visual_bounds [of "- 1.46"] by blast
qed

subsection \<open>Heading smoothing\<close>

text \<open>
  C6: for a current and a target heading in \<open>[0, 360)\<close> and a factor in \<open>[0, 1]\<close>,
  \<^verbatim>\<open>smoothHeading\<close> blends along the difference \<open>d\<close> that is the raw difference
  moved by 360 when it exceeds 180 in magnitude, so that \<open>d\<close> is at most 180 in
  magnitude; the result is the blend moved by a multiple \<open>k\<close> of 360 into \<open>[0, 360)\<close>;
  and \<^verbatim>\<open>smoothHeading(359, 1, 0.5)\<close> is \<open>0\<close>.
\<close>

theorem smoothHeading_shortest_path:
  assumes "0 \<le> c" "c < 360" "0 \<le> t" "t < 360" "0 \<le> a" "a \<le> 1"
  shows "(\<exists>d k. d = (if 180 < t - c then t - c - 360
                     else if t - c < - 180 then t - c + 360 else t - c)
            \<and> \<bar>d\<bar> \<le> 180 \<and> k \<in> {- 1, 0, 1 :: int}
            \<and> smoothHeading c t a = c + a * d + 360 * of_int k)
         \<and> 0 \<le> smoothHeading c t a \<and> smoothHeading c t a < 360
         \<and> smoothHeading 359 1 0.5 = 0"
proof -
  define d where
    "d = (if 180 < t - c then t - c - 360 else if t - c < - 180 then t - c + 360 else t - c)"
  have d: "\<bar>d\<bar> \<le> 180" using assms by (auto simp: d_def)
  have "\<bar>a * d\<bar> \<le> 1 * 180" unfolding abs_mult using d assms by (intro mult_mono) auto
  then have ad: "- 180 \<le> a * d" "a * d \<le> 180" by auto
  have sh: "smoothHeading c t a =
     (let r0 = c + a * d; r1 = (if r0 < 0 then r0 + 360 else r0)
      in if 360 \<le> r1 then r1 - 360 else r1)"
    unfolding smoothHeading_def d_def Let_def by auto
  have rng: "0 \<le> smoothHeading c t a \<and> smoothHeading c t a < 360"
    unfolding sh Let_def using ad assms by auto
  have "\<exists>k. k \<in> {- 1, 0, 1 :: int} \<and> smoothHeading c t a = c + a * d + 360 * of_int k"
  proof (cases "c + a * d < 0")
    case True
    then have "smoothHeading c t a = c + a * d + 360 * of_int 1"
      unfolding sh Let_def using ad assms by auto
    then show ?thesis by blast
  next
    case False
    show ?thesis
    proof (cases "360 \<le> c + a * d")
      case True
      then have "smoothHeading c t a = c + a * d + 360 * of_int (- 1)"
        unfolding sh Let_def using False by auto
      then show ?thesis by blast
    next
      case below: False
      then have "smoothHeading c t a = c + a * d + 360 * of_int 0"
        unfolding sh Let_def using False by auto
      then show ?thesis by blast
    qed
  qed
  moreover have "smoothHeading 359 1 0.5 = 0" by (simp add: smoothHeading_def)
  ultimately show ?thesis using d rng unfolding d_def by blast
qed

theorem smoothHeading_shortest_path_witness:
  "(0 :: real) \<le> 359 \<and> (359 :: real) < 360 \<and> (0 :: real) \<le> 1 \<and> (1 :: real) < 360 \<and>
   (0 :: real) \<le> 0.5 \<and> (0.5 :: real) \<le> 1 \<and>
   0 \<le> smoothHeading 359 1 0.5 \<and> smoothHeading 359 1 0.5 < 360 \<and>
   smoothHeading 359 1 0.5 = 0"
  using smoothHeading_shortest_path [of 359 1 "0.5"] by simp

subsection \<open>Equatorial to horizontal coordinates\<close>

lemma clampedQuotient_range: "clampedQuotient n d = Some q \<Longrightarrow> - 1 \<le> q \<and> q \<le> 1"
  by (auto simp: clampedQuotient_def split: if_splits)

lemma clampedQuotient_nan: "clampedQuotient n d = None \<Longrightarrow> d = 0"
  by (auto simp: clampedQuotient_def split: if_splits)

text \<open>
  Not-a-number. The altitude is always a number, and the azimuth is a number whenever the
  cosine of the latitude is not \<open>0\<close>; with the object at the zenith or the nadir it is
  \<open>0\<close>. At a latitude whose cosine is exactly \<open>0\<close> line 69 divides \<open>0\<close> by \<open>0\<close>.
\<close>

lemma equatorialToHorizontal_unfold:
  "equatorialToHorizontal r d l lat =
     (let alt = arcsin (max (- 1) (min 1 (sin lat * sin d + cos lat * cos d * cos (l - r))));
          q = clampedQuotient
                (sin d - sin lat * (sin lat * sin d + cos lat * cos d * cos (l - r)))
                (cos lat * cos alt)
      in if \<bar>cos alt\<bar> < 1 / 10 ^ 10 then (alt, Some 0)
         else if 0 < sin (l - r)
           then (alt, map_option (\<lambda>a. TWO_PI - a) (map_option arccos q))
           else (alt, map_option arccos q))"
  unfolding equatorialToHorizontal_def Let_def by simp



lemma equatorialToHorizontal_pole: "equatorialToHorizontal 0 0 0 (pi / 2) = (0, None)"
  by (simp add: equatorialToHorizontal_def clampedQuotient_def)

text \<open>
  C10: for every input the altitude lies in \<open>[-\<pi>/2, \<pi>/2]\<close> and the azimuth in the closed
  interval \<open>[0, 2\<pi>]\<close>, and \<open>2\<pi>\<close> itself is returned (for an object at the celestial pole
  seen from the equator, six sidereal hours west of the meridian). The azimuth is a number
  unless the cosine of the latitude is exactly \<open>0\<close>, where line 69 divides \<open>0\<close> by \<open>0\<close>.
\<close>

theorem equatorialToHorizontal_ranges:
  "(case equatorialToHorizontal r d l lat of
      (alt, az) \<Rightarrow>
        - (pi / 2) \<le> alt \<and> alt \<le> pi / 2 \<and>
        (case az of None \<Rightarrow> cos lat = 0 | Some a \<Rightarrow> 0 \<le> a \<and> a \<le> 2 * pi))
   \<and> equatorialToHorizontal 0 (pi / 2) (pi / 2) 0 = (0, Some (2 * pi))"
proof -
  define alt where
    "alt = arcsin (max (- 1) (min 1 (sin lat * sin d + cos lat * cos d * cos (l - r))))"
  define q where
    "q = clampedQuotient
           (sin d - sin lat * (sin lat * sin d + cos lat * cos d * cos (l - r)))
           (cos lat * cos alt)"
  have alt: "- (pi / 2) \<le> alt \<and> alt \<le> pi / 2"
    unfolding alt_def by (intro arcsin_bounded) auto
  have e: "equatorialToHorizontal r d l lat =
      (if \<bar>cos alt\<bar> < 1 / 10 ^ 10 then (alt, Some 0)
       else if 0 < sin (l - r) then (alt, map_option (\<lambda>a. TWO_PI - a) (map_option arccos q))
       else (alt, map_option arccos q))"
    unfolding equatorialToHorizontal_unfold Let_def alt_def q_def by (rule refl)
  have az: "case snd (equatorialToHorizontal r d l lat) of
              None \<Rightarrow> cos lat = 0 | Some a \<Rightarrow> 0 \<le> a \<and> a \<le> 2 * pi"
  proof (cases "\<bar>cos alt\<bar> < 1 / 10 ^ 10")
    case True
    then show ?thesis unfolding e by simp
  next
    case False
    then have ca: "cos alt \<noteq> 0" by auto
    show ?thesis
    proof (cases q)
      case None
      then have "cos lat * cos alt = 0" unfolding q_def by (rule clampedQuotient_nan)
      then have "cos lat = 0" using ca by simp
      then show ?thesis unfolding e using None False by simp
    next
      case (Some v)
      then have "- 1 \<le> v \<and> v \<le> 1" unfolding q_def by (rule clampedQuotient_range)
      then have "0 \<le> arccos v \<and> arccos v \<le> pi" by (simp add: arccos_bounded)
      then show ?thesis unfolding e using Some False by (auto simp: TWO_PI_def)
    qed
  qed
  have "fst (equatorialToHorizontal r d l lat) = alt" unfolding e by simp
  then have "case equatorialToHorizontal r d l lat of
     (alt, az) \<Rightarrow>
       - (pi / 2) \<le> alt \<and> alt \<le> pi / 2 \<and>
       (case az of None \<Rightarrow> cos lat = 0 | Some a \<Rightarrow> 0 \<le> a \<and> a \<le> 2 * pi)"
    using alt az by (cases "equatorialToHorizontal r d l lat") simp
  moreover have "equatorialToHorizontal 0 (pi / 2) (pi / 2) 0 = (0, Some (2 * pi))"
    by (simp add: equatorialToHorizontal_def clampedQuotient_def TWO_PI_def)
  ultimately show ?thesis by blast
qed

theorem equatorialToHorizontal_ranges_witness:
  "equatorialToHorizontal 0 (pi / 2) (pi / 2) 0 = (0, Some (2 * pi)) \<and>
   - (pi / 2) \<le> (0 :: real) \<and> (0 :: real) \<le> pi / 2 \<and> (0 :: real) \<le> 2 * pi \<and> 2 * pi \<le> 2 * pi"
  using equatorialToHorizontal_ranges [of 0 "pi / 2" "pi / 2" 0] by simp



subsection \<open>The position engine\<close>

lemma writePosition_length: "length (writePosition S l lat i buf) = length buf"
  by (simp add: writePosition_def Let_def split: prod.splits)

lemma fold_writePosition_length:
  "length (fold (writePosition S l lat) [0 ..< n] buf) = length buf"
  by (induction n) (simp_all add: writePosition_length)

lemma writePosition_same:
  "i < length buf \<Longrightarrow> copiedFrom (S ! i) (writePosition S l lat i buf ! i)"
  by (simp add: writePosition_def Let_def copiedFrom_def split: prod.splits)

lemma writePosition_other:
  "j \<noteq> i \<Longrightarrow> writePosition S l lat i buf ! j = buf ! j"
  by (simp add: writePosition_def Let_def split: prod.splits)

lemma fold_writePosition_copied:
  "i < n \<Longrightarrow> n \<le> length buf \<Longrightarrow>
   copiedFrom (S ! i) (fold (writePosition S l lat) [0 ..< n] buf ! i)"
proof (induction n)
  case 0
  then show ?case by simp
next
  case (Suc n)
  show ?case
  proof (cases "i = n")
    case True
    have "n < length (fold (writePosition S l lat) [0 ..< n] buf)"
      using Suc.prems by (simp add: fold_writePosition_length)
    then show ?thesis using True by (simp add: writePosition_same)
  next
    case False
    then have "i < n" using Suc.prems by simp
    then have "copiedFrom (S ! i) (fold (writePosition S l lat) [0 ..< n] buf ! i)"
      using Suc by simp
    then show ?thesis using False by (simp add: writePosition_other)
  qed
qed

lemma updateStarPositions_length:
  "initialized e \<Longrightarrow> length (starPositions (updateStarPositions S nowMs e)) = length S"
  by (simp add: updateStarPositions_def Let_def fold_writePosition_length)

lemma updateStarPositions_copied:
  "initialized e \<Longrightarrow> i < length S \<Longrightarrow>
   copiedFrom (S ! i) (starPositions (updateStarPositions S nowMs e) ! i)"
  by (simp add: updateStarPositions_def Let_def fold_writePosition_copied)

lemma updateStarPositions_initialized:
  "initialized e \<Longrightarrow> initialized (updateStarPositions S nowMs e)"
  by (simp add: updateStarPositions_def Let_def)

lemma updateStarPositions_reuse:
  "initialized e \<Longrightarrow> length (starPositions e) = length S \<Longrightarrow>
   allocations (updateStarPositions S nowMs e) = allocations e"
  by (simp add: updateStarPositions_def Let_def)

lemma engine_initialized:
  "\<not> initialized initialEngine"
  "initialized (onCurrentPosition la lo nowMs e)"
  "initialized (setObserverLocation la lo e)"
  "initialized (onNorthAlignedOrientationUpdate h e) = initialized e"
  by (simp_all add: initialEngine_def onCurrentPosition_def setObserverLocation_def
      onNorthAlignedOrientationUpdate_def Let_def)

text \<open>
  C7: after a call of \<^verbatim>\<open>updateStarPositions\<close> with the observer initialized, the output
  array is as long as the catalog and entry \<open>i\<close> carries the identifier, magnitude, colour
  index and name of catalog entry \<open>i\<close>; a call that finds the array already that long
  allocates no new one, so the next call, at any time \<open>nowMs2\<close>, keeps the array of this one.
\<close>

theorem updateStarPositions_copies_catalog:
  assumes "initialized e"
  shows "length (starPositions (updateStarPositions STARS nowMs e)) = length STARS
    \<and> (\<forall>i < length STARS.
          copiedFrom (STARS ! i) (starPositions (updateStarPositions STARS nowMs e) ! i)
        \<and> copiedFrom (STARS ! i)
            (starPositions (updateStarPositions STARS nowMs2
                              (updateStarPositions STARS nowMs e)) ! i))
    \<and> (length (starPositions e) = length STARS \<longrightarrow>
          allocations (updateStarPositions STARS nowMs e) = allocations e)
    \<and> initialized (updateStarPositions STARS nowMs e)
    \<and> allocations (updateStarPositions STARS nowMs2 (updateStarPositions STARS nowMs e))
        = allocations (updateStarPositions STARS nowMs e)"
proof -
  let ?e = "updateStarPositions STARS nowMs e"
  have len: "length (starPositions ?e) = length STARS"
    using assms by (rule updateStarPositions_length)
  have ini: "initialized ?e" using assms by (rule updateStarPositions_initialized)
  have cp: "\<forall>i < length STARS. copiedFrom (STARS ! i) (starPositions ?e ! i)"
    using assms by (simp add: updateStarPositions_copied)
  have cp2: "\<forall>i < length STARS.
      copiedFrom (STARS ! i) (starPositions (updateStarPositions STARS nowMs2 ?e) ! i)"
    using ini by (simp add: updateStarPositions_copied)
  have re: "allocations (updateStarPositions STARS nowMs2 ?e) = allocations ?e"
    using ini len by (rule updateStarPositions_reuse)
  have re0: "length (starPositions e) = length STARS \<longrightarrow> allocations ?e = allocations e"
    using assms by (simp add: updateStarPositions_reuse)
  show ?thesis using len ini cp cp2 re re0 by blast
qed

theorem updateStarPositions_copies_catalog_witness:
  "initialized sceneEngine
   \<and> length (starPositions (updateStarPositions [sirius] 0 sceneEngine)) = 1
   \<and> StarPosition3D.hip (starPositions (updateStarPositions [sirius] 0 sceneEngine) ! 0) = 32349
   \<and> StarPosition3D.name (starPositions (updateStarPositions [sirius] 0 sceneEngine) ! 0)
       = ''Sirius''
   \<and> allocations (updateStarPositions [sirius] 1000 (updateStarPositions [sirius] 0 sceneEngine))
       = allocations (updateStarPositions [sirius] 0 sceneEngine)"
proof -
  have h: "initialized sceneEngine"
    by (simp add: sceneEngine_def setObserverLocation_def)
  show ?thesis
    using h updateStarPositions_copies_catalog [OF h, of "[sirius]" 0 1000]
    by (simp add: copiedFrom_def sirius_def)
qed

text \<open>
  C8: a call of \<^verbatim>\<open>updateStarPositions\<close> with the observer not initialized returns the
  state it was given: the buffer, the observer and every other variable are unchanged.
\<close>

theorem updateStarPositions_uninitialized_noop:
  "\<not> initialized e \<Longrightarrow> updateStarPositions STARS nowMs e = e"
  by (simp add: updateStarPositions_def)

theorem updateStarPositions_uninitialized_noop_witness:
  "\<not> initialized initialEngine \<and> updateStarPositions [sirius] 0 initialEngine = initialEngine"
proof -
  have h: "\<not> initialized initialEngine" by (simp add: initialEngine_def)
  show ?thesis using h updateStarPositions_uninitialized_noop [OF h] by simp
qed

subsection \<open>Domains of the square root and of the inverse sine\<close>

text \<open>
  The quotient whose inverse sine is the gaze altitude lies in \<open>[-1, 1]\<close>. The haversine
  term lies in \<open>[0, 1]\<close> in exact arithmetic; with rounding it is not negative as long as
  the product of the two computed cosines is not negative, and the source clamps it from
  above only.
\<close>

lemma gaze_asin_domain:
  fixes sx sy sz :: real
  assumes "\<not> sqrt (sx * sx + sy * sy + sz * sz) < 0.001"
  shows "- 1 \<le> sy / sqrt (sx * sx + sy * sy + sz * sz)
       \<and> sy / sqrt (sx * sx + sy * sy + sz * sz) \<le> 1"
proof -
  define l where "l = sqrt (sx * sx + sy * sy + sz * sz)"
  have "\<not> l < 0.001" using assms unfolding l_def .
  then have "1 / 10 ^ 3 \<le> l" by simp
  moreover have "(0 :: real) < 1 / 10 ^ 3" by simp
  ultimately have pos: "0 < l" by (rule less_le_trans [rotated])
  have "\<bar>sy\<bar> = sqrt (sy * sy)" by simp
  also have "\<dots> \<le> l" unfolding l_def by (rule real_sqrt_le_mono) simp
  finally have "\<bar>sy\<bar> \<le> l" .
  then have "- l \<le> sy" "sy \<le> l" by linarith+
  then have "- 1 \<le> sy / l \<and> sy / l \<le> 1" using pos by (simp add: field_simps)
  then show ?thesis unfolding l_def .
qed

lemma haversine_term_range:
  fixes d1 d2 r :: real
  shows "0 \<le> (sin ((d2 - d1) / 2))\<^sup>2 + cos d1 * cos d2 * (sin (r / 2))\<^sup>2
       \<and> (sin ((d2 - d1) / 2))\<^sup>2 + cos d1 * cos d2 * (sin (r / 2))\<^sup>2 \<le> 1"
proof -
  define s where "s = (sin (r / 2))\<^sup>2"
  define cd where "cd = cos (d2 - d1)"
  define cs where "cs = cos (d1 + d2)"
  have s: "0 \<le> s" "s \<le> 1" by (simp_all add: s_def abs_square_le_1)
  have cd: "- 1 \<le> cd" "cd \<le> 1" by (simp_all add: cd_def)
  have cs: "- 1 \<le> cs" "cs \<le> 1" by (simp_all add: cs_def)
  have e: "2 * ((d2 - d1) / 2) = d2 - d1" by simp
  have "cos (d2 - d1) = 1 - 2 * (sin ((d2 - d1) / 2))\<^sup>2"
    using cos_double_sin [of "(d2 - d1) / 2"] unfolding e .
  then have h: "(sin ((d2 - d1) / 2))\<^sup>2 = (1 - cd) / 2"
    by (simp add: cd_def)
  have p: "cos d1 * cos d2 = (cd + cs) / 2"
    by (simp add: cd_def cs_def cos_add cos_diff)
  have a: "(sin ((d2 - d1) / 2))\<^sup>2 + cos d1 * cos d2 * (sin (r / 2))\<^sup>2
           = (1 - (1 - s) * cd + s * cs) / 2"
    unfolding h p s_def [symmetric] by (simp add: field_simps)
  have u1: "(1 - s) * cd \<le> (1 - s) * 1" using s cd by (intro mult_left_mono) auto
  have l1: "(1 - s) * (- 1) \<le> (1 - s) * cd" using s cd by (intro mult_left_mono) auto
  have u2: "s * cs \<le> s * 1" using s cs by (intro mult_left_mono) auto
  have l2: "s * (- 1) \<le> s * cs" using s cs by (intro mult_left_mono) auto
  show ?thesis unfolding a using u1 l1 u2 l2 by simp
qed

lemma rounds_exactArith: "rounds exactArith"
  by (simp add: rounds_def exactArith_def)

lemma rounds_cosUpArith: "rounds cosUpArith"
  by (simp add: rounds_def cosUpArith_def)

lemma rounds_nonneg: "rounds A \<Longrightarrow> 0 \<le> v \<Longrightarrow> 0 \<le> rnd A v"
  unfolding rounds_def by metis

lemma rounds_le_one: "rounds A \<Longrightarrow> v \<le> 1 \<Longrightarrow> rnd A v \<le> 1"
  unfolding rounds_def by metis

lemma haversineTerm_exact:
  "haversineTerm exactArith lon1 lat1 lon2 lat2 =
     (sin ((lat2 - lat1) / 2))\<^sup>2 + cos lat1 * cos lat2 * (sin ((lon2 - lon1) / 2))\<^sup>2"
  by (simp add: haversineTerm_def exactArith_def)

lemma haversineTerm_exact_range:
  "0 \<le> haversineTerm exactArith lon1 lat1 lon2 lat2
   \<and> haversineTerm exactArith lon1 lat1 lon2 lat2 \<le> 1"
  unfolding haversineTerm_exact by (rule haversine_term_range)

lemma haversineTerm_nonneg:
  assumes "rounds A" "0 \<le> fcos A lat1 * fcos A lat2"
  shows "0 \<le> haversineTerm A lon1 lat1 lon2 lat2"
proof -
  have p: "0 \<le> rnd A (fcos A lat1 * fcos A lat2)"
    using assms by (rule rounds_nonneg)
  have s1: "0 \<le> rnd A ((fsin A (rnd A (rnd A (lat2 - lat1) / 2)))\<^sup>2)"
    using assms(1) by (rule rounds_nonneg) simp
  have s2: "0 \<le> rnd A ((fsin A (rnd A (rnd A (lon2 - lon1) / 2)))\<^sup>2)"
    using assms(1) by (rule rounds_nonneg) simp
  have "0 \<le> rnd A (rnd A (fcos A lat1 * fcos A lat2)
                    * rnd A ((fsin A (rnd A (rnd A (lon2 - lon1) / 2)))\<^sup>2))"
    using assms(1) by (rule rounds_nonneg) (simp add: p s2)
  then show ?thesis unfolding haversineTerm_def
    using assms(1) by (intro rounds_nonneg) (simp_all add: s1)
qed

lemma angularDistance_term:
  "angularDistance A ra1 dec1 ra2 dec2 =
     (if min 1 (haversineTerm A ra1 dec1 ra2 dec2) < 0 then None
      else if rnd A (sqrt (min 1 (haversineTerm A ra1 dec1 ra2 dec2))) < - 1
            \<or> 1 < rnd A (sqrt (min 1 (haversineTerm A ra1 dec1 ra2 dec2))) then None
      else Some (2 * arcsin (rnd A (sqrt (min 1 (haversineTerm A ra1 dec1 ra2 dec2))))))"
  unfolding angularDistance_def haversineTerm_def Let_def by (rule refl)

lemma angularDistanceAltAz_term:
  "angularDistanceAltAz A alt1 az1 alt2 az2 =
     (if min 1 (haversineTerm A az1 alt1 az2 alt2) < 0 then None
      else if rnd A (sqrt (min 1 (haversineTerm A az1 alt1 az2 alt2))) < - 1
            \<or> 1 < rnd A (sqrt (min 1 (haversineTerm A az1 alt1 az2 alt2))) then None
      else Some (2 * arcsin (rnd A (sqrt (min 1 (haversineTerm A az1 alt1 az2 alt2))))))"
  unfolding angularDistanceAltAz_def haversineTerm_def Let_def by (rule refl)

text \<open>The last line of both functions, for a computed term \<open>a\<close>.\<close>

lemma clamped_root:
  assumes "rounds A" "0 \<le> a"
  shows "0 \<le> rnd A (sqrt (min 1 a)) \<and> rnd A (sqrt (min 1 a)) \<le> 1
       \<and> 0 \<le> 2 * arcsin (rnd A (sqrt (min 1 a)))
       \<and> 2 * arcsin (rnd A (sqrt (min 1 a))) \<le> pi"
proof -
  let ?r = "rnd A (sqrt (min 1 a))"
  have "0 \<le> sqrt (min 1 a)" "sqrt (min 1 a) \<le> 1" using assms(2) by simp_all
  then have r: "0 \<le> ?r" "?r \<le> 1"
    using assms(1) by (simp_all add: rounds_nonneg rounds_le_one)
  have "0 \<le> arcsin ?r" using r by (intro arcsin_nonneg) simp
  moreover have "- 1 \<le> ?r" using r by linarith
  then have "arcsin ?r \<le> pi / 2" using r by (intro arcsin_ubound)
  ultimately show ?thesis using r by simp
qed

lemma distance_of_term:
  assumes "rounds A"
  shows "((if min 1 a < 0 then None
      else if rnd A (sqrt (min 1 a)) < - 1 \<or> 1 < rnd A (sqrt (min 1 a)) then None
      else Some (2 * arcsin (rnd A (sqrt (min 1 a))))) = None) = (a < 0)"
    and "(if min 1 a < 0 then None
      else if rnd A (sqrt (min 1 a)) < - 1 \<or> 1 < rnd A (sqrt (min 1 a)) then None
      else Some (2 * arcsin (rnd A (sqrt (min 1 a))))) = Some v \<Longrightarrow> 0 \<le> v \<and> v \<le> pi"
proof -
  show "((if min 1 a < 0 then None
      else if rnd A (sqrt (min 1 a)) < - 1 \<or> 1 < rnd A (sqrt (min 1 a)) then None
      else Some (2 * arcsin (rnd A (sqrt (min 1 a))))) = None) = (a < 0)"
  proof (cases "a < 0")
    case True
    then show ?thesis by (simp add: min_def)
  next
    case False
    then have "0 \<le> a" by simp
    from clamped_root [OF assms this] show ?thesis using False by (auto simp: min_def)
  qed
next
  assume h: "(if min 1 a < 0 then None
      else if rnd A (sqrt (min 1 a)) < - 1 \<or> 1 < rnd A (sqrt (min 1 a)) then None
      else Some (2 * arcsin (rnd A (sqrt (min 1 a))))) = Some v"
  then have "\<not> min 1 a < 0" by (auto split: if_splits)
  then have "0 \<le> a" by (auto simp: min_def split: if_splits)
  from clamped_root [OF assms this] show "0 \<le> v \<and> v \<le> pi"
    using h by (auto split: if_splits)
qed

lemma distance_exact:
  assumes "0 \<le> a" "a \<le> 1"
  shows "(if min 1 a < 0 then None
      else if rnd exactArith (sqrt (min 1 a)) < - 1 \<or> 1 < rnd exactArith (sqrt (min 1 a)) then None
      else Some (2 * arcsin (rnd exactArith (sqrt (min 1 a))))) = Some (2 * arcsin (sqrt a))"
proof -
  have m: "min 1 a = a" using assms by (simp add: min_def)
  have e: "rnd exactArith (sqrt a) = sqrt a" by (simp add: exactArith_def)
  have c1: "\<not> a < 0" using assms by simp
  have "0 \<le> sqrt a" "sqrt a \<le> 1" using assms by simp_all
  then have c2: "\<not> (sqrt a < - 1 \<or> 1 < sqrt a)" by linarith
  show ?thesis unfolding m e using c1 c2 by (simp only: if_False)
qed

lemma angularDistance_exact:
  "angularDistance exactArith ra1 dec1 ra2 dec2 =
     Some (2 * arcsin (sqrt (haversineTerm exactArith ra1 dec1 ra2 dec2)))"
  unfolding angularDistance_term using haversineTerm_exact_range [of ra1 dec1 ra2 dec2]
  by (intro distance_exact) simp_all

lemma angularDistanceAltAz_exact:
  "angularDistanceAltAz exactArith alt1 az1 alt2 az2 =
     Some (2 * arcsin (sqrt (haversineTerm exactArith az1 alt1 az2 alt2)))"
  unfolding angularDistanceAltAz_term using haversineTerm_exact_range [of az1 alt1 az2 alt2]
  by (intro distance_exact) simp_all

lemma angularDistanceAltAz_same: "angularDistanceAltAz exactArith a b a b = Some 0"
  by (simp add: angularDistanceAltAz_exact haversineTerm_exact)

lemma haversine_quarter: "2 * arcsin (sqrt ((sin (pi / 4))\<^sup>2)) = pi / 2"
proof -
  have s: "0 \<le> sin (pi / 4)" by (simp add: sin_45)
  then have "sqrt ((sin (pi / 4))\<^sup>2) = sin (pi / 4)" by simp
  moreover have "arcsin (sin (pi / 4)) = pi / 4" by (rule arcsin_sin) auto
  ultimately show ?thesis by simp
qed

lemma dist_north_east: "angularDistanceAltAz exactArith 0 0 0 (pi / 2) = Some (pi / 2)"
  using haversine_quarter by (simp add: angularDistanceAltAz_exact haversineTerm_exact)

lemma dist_east_north: "angularDistanceAltAz exactArith 0 (pi / 2) 0 0 = Some (pi / 2)"
  using haversine_quarter by (simp add: angularDistanceAltAz_exact haversineTerm_exact power2_eq_square)

lemma dist_equator_quarter: "angularDistance exactArith 0 0 (pi / 2) 0 = Some (pi / 2)"
  using haversine_quarter by (simp add: angularDistance_exact haversineTerm_exact)

lemma cos_sum20:
  "(\<Sum>m<20. cos_coeff m * (1 :: real) ^ m)
     = 1 - 1 / 2 + 1 / 24 - 1 / 720 + 1 / 40320 - 1 / 3628800 + 1 / 479001600
       - 1 / 87178291200 + 1 / 20922789888000 - 1 / 6402373705728000"
proof -
  have "{..<20 :: nat} = {0, 1, 2, 3, 4, 5, 6, 7, 8, 9, 10, 11, 12, 13, 14, 15, 16, 17, 18, 19}"
    by (auto, arith)
  then show ?thesis
    by (simp add: cos_coeff_def fact_numeral)
qed

lemma cos_one_below: "cos (1 :: real) < 1216652631687587 / 2 ^ 51"
proof -
  obtain t :: real where t:
      "cos 1 = (\<Sum>m<20. cos_coeff m * 1 ^ m) + cos (t + 1 / 2 * real 20 * pi) / fact 20 * 1 ^ 20"
    using Maclaurin_cos_expansion2 [of 1 20] by auto
  have "cos (t + 1 / 2 * real 20 * pi) \<le> 1" by (rule cos_le_one)
  then have "cos (t + 1 / 2 * real 20 * pi) / fact 20 \<le> 1 / fact 20"
    by (rule divide_right_mono) simp
  then have "cos 1 \<le> (\<Sum>m<20. cos_coeff m * 1 ^ m) + 1 / fact 20"
    unfolding t by simp
  also have "\<dots> < 1216652631687587 / 2 ^ 51"
    unfolding cos_sum20 by (simp add: fact_numeral)
  finally show ?thesis .
qed

lemma cos_one_pos: "0 < cos (1 :: real)"
proof -
  obtain t :: real where t: "0 < t" "t < 1"
      "cos 1 = (\<Sum>m<2. cos_coeff m * 1 ^ m) + cos (t + 1 / 2 * real 2 * pi) / fact 2 * 1 ^ 2"
    using Maclaurin_cos_expansion2 [of 1 2] by auto
  have "(\<Sum>m<2. cos_coeff m * (1 :: real) ^ m) = 1"
    by (simp add: cos_coeff_def numeral_2_eq_2)
  moreover have "cos (t + 1 / 2 * real 2 * pi) = - cos t" by simp
  ultimately have "cos 1 = 1 - cos t / 2" using t(3) by simp
  moreover have "cos t \<le> 1" by simp
  ultimately show ?thesis by linarith
qed

lemma pi_minus_one: "pi - 1 \<noteq> 1"
proof
  assume "pi - 1 = 1"
  then have "pi / 2 = 1" by simp
  then have "cos (1 :: real) = cos (pi / 2)" by simp
  then show False using cos_one_pos by simp
qed

lemma cosUp_term:
  "haversineTerm cosUpArith 0 1 pi (pi - 1) = cos 1 * (cos 1 - 1216652631687587 / 2 ^ 51)"
proof -
  have e: "(pi - 2) / 2 = pi / 2 - 1" by (simp add: field_simps)
  have s: "sin ((pi - 2) / 2) = cos 1"
    unfolding e by (simp add: sin_diff)
  show ?thesis
    unfolding haversineTerm_def cosUpArith_def
    using pi_minus_one by (simp add: s power2_eq_square algebra_simps)
qed

lemma cosUp_term_negative: "haversineTerm cosUpArith 0 1 pi (pi - 1) < 0"
  unfolding cosUp_term using cos_one_pos cos_one_below
  by (intro mult_pos_neg) simp_all

text \<open>
  C9, as stated: the haversine term is clamped to \<open>[0, 1]\<close>, so that the distance is never
  NaN. The source clamps the term with \<^verbatim>\<open>Math.min(1, a)\<close>, from above only. For the
  points \<open>(0, 1)\<close> and \<open>(\<pi>, \<pi> - 1)\<close> the two cosines have opposite signs and the term is
  \<open>cos\<^sup>2 1 - c * cos 1\<close>, where \<open>c\<close> is the computed cosine of \<open>1\<close>: it is negative as soon as
  \<open>c\<close> is rounded up, as the double is. The square root of the negative term is NaN, and
  so is the distance.
\<close>

theorem haversine_negative_term_counterexample:
  "rounds cosUpArith
   \<and> haversineTerm cosUpArith 0 1 pi (pi - 1) < 0
   \<and> angularDistance cosUpArith 0 1 pi (pi - 1) = None
   \<and> angularDistanceAltAz cosUpArith 1 0 (pi - 1) pi = None"
  using cosUp_term_negative rounds_cosUpArith
  by (simp add: angularDistance_term angularDistanceAltAz_term)

text \<open>
  C9, amended. In an arithmetic whose rounding is monotone and keeps \<open>0\<close> and \<open>1\<close>, each
  of the two functions returns NaN exactly when the haversine term it computed is
  negative, and any other result lies in \<open>[0, \<pi>]\<close>: the clamp from above keeps the
  square root at most \<open>1\<close>. The computed term is not negative when the two computed
  cosines have a product that is not negative, as for latitudes between \<open>-\<pi>/2\<close> and
  \<open>\<pi>/2\<close>, and in exact arithmetic it always lies in \<open>[0, 1]\<close>, so that there the
  result is a number.
\<close>

theorem haversine_clamped_above:
  assumes "rounds A"
  shows "((angularDistance A ra1 dec1 ra2 dec2 = None) = (haversineTerm A ra1 dec1 ra2 dec2 < 0))
       \<and> ((angularDistanceAltAz A alt1 az1 alt2 az2 = None)
            = (haversineTerm A az1 alt1 az2 alt2 < 0))
       \<and> (\<forall>v. angularDistance A ra1 dec1 ra2 dec2 = Some v \<longrightarrow> 0 \<le> v \<and> v \<le> pi)
       \<and> (\<forall>v. angularDistanceAltAz A alt1 az1 alt2 az2 = Some v \<longrightarrow> 0 \<le> v \<and> v \<le> pi)
       \<and> (0 \<le> fcos A lat1 * fcos A lat2 \<longrightarrow> 0 \<le> haversineTerm A lon1 lat1 lon2 lat2)
       \<and> 0 \<le> haversineTerm exactArith lon1 lat1 lon2 lat2
       \<and> haversineTerm exactArith lon1 lat1 lon2 lat2 \<le> 1
       \<and> (\<exists>v. angularDistance exactArith ra1 dec1 ra2 dec2 = Some v)
       \<and> (\<exists>v. angularDistanceAltAz exactArith alt1 az1 alt2 az2 = Some v)"
proof -
  have n1: "(angularDistance A ra1 dec1 ra2 dec2 = None) = (haversineTerm A ra1 dec1 ra2 dec2 < 0)"
    unfolding angularDistance_term using assms by (rule distance_of_term(1))
  have n2: "(angularDistanceAltAz A alt1 az1 alt2 az2 = None)
            = (haversineTerm A az1 alt1 az2 alt2 < 0)"
    unfolding angularDistanceAltAz_term using assms by (rule distance_of_term(1))
  have r1: "\<forall>v. angularDistance A ra1 dec1 ra2 dec2 = Some v \<longrightarrow> 0 \<le> v \<and> v \<le> pi"
    unfolding angularDistance_term using distance_of_term(2) [OF assms] by blast
  have r2: "\<forall>v. angularDistanceAltAz A alt1 az1 alt2 az2 = Some v \<longrightarrow> 0 \<le> v \<and> v \<le> pi"
    unfolding angularDistanceAltAz_term using distance_of_term(2) [OF assms] by blast
  have p: "0 \<le> fcos A lat1 * fcos A lat2 \<longrightarrow> 0 \<le> haversineTerm A lon1 lat1 lon2 lat2"
    using assms by (simp add: haversineTerm_nonneg)
  have e1: "angularDistance exactArith ra1 dec1 ra2 dec2 \<noteq> None"
    unfolding angularDistance_term distance_of_term(1) [OF rounds_exactArith]
    using haversineTerm_exact_range [of ra1 dec1 ra2 dec2] by simp
  have e2: "angularDistanceAltAz exactArith alt1 az1 alt2 az2 \<noteq> None"
    unfolding angularDistanceAltAz_term distance_of_term(1) [OF rounds_exactArith]
    using haversineTerm_exact_range [of az1 alt1 az2 alt2] by simp
  show ?thesis
    using n1 n2 r1 r2 p e1 e2 haversineTerm_exact_range [of lon1 lat1 lon2 lat2] by blast
qed

theorem haversine_clamped_above_witness:
  "rounds exactArith
   \<and> 0 \<le> fcos exactArith 0 * fcos exactArith 0
   \<and> 0 \<le> haversineTerm exactArith 0 0 (pi / 2) 0
   \<and> angularDistance exactArith 0 0 (pi / 2) 0 = Some (pi / 2)
   \<and> angularDistanceAltAz exactArith 0 0 0 (pi / 2) = Some (pi / 2)
   \<and> 0 \<le> pi / 2 \<and> pi / 2 \<le> pi"
  using haversine_clamped_above [OF rounds_exactArith, of 0 0 "pi / 2" 0 0 0 0 "pi / 2" 0 0 0 "pi / 2"]
    dist_equator_quarter dist_north_east rounds_exactArith
  by (simp add: exactArith_def)

subsection \<open>The gaze matcher: one tick\<close>

lemma closestLoop_skip:
  "closestLoop A CONS obs ga gz acc =
   closestLoop A (filter (\<lambda>c. \<not> fst (centroidHorizontal obs c) < 0) CONS) obs ga gz acc"
proof (induction CONS arbitrary: acc)
  case Nil
  show ?case by simp
next
  case (Cons c cs)
  obtain a b where acc: "acc = (a, b)" by (cases acc)
  show ?case unfolding acc using Cons
    by (auto simp: centroidHorizontal_def Let_def split: prod.splits option.splits)
qed

lemma closestLoop_none:
  assumes "\<forall>c \<in> set CONS. \<not> fst (centroidHorizontal obs c) < 0 \<longrightarrow>
             (case centroidDistance A obs ga gz c of None \<Rightarrow> True | Some d \<Rightarrow> \<not> d < b)"
  shows "closestLoop A CONS obs ga gz (a, b) = (a, b)"
  using assms
proof (induction CONS)
  case Nil
  show ?case by simp
next
  case (Cons c cs)
  then show ?case
    by (auto simp: centroidHorizontal_def centroidDistance_def Let_def split: prod.splits option.splits)
qed

lemma closestLoop_nearest:
  assumes "\<forall>c' \<in> set CONS. c' \<noteq> c \<longrightarrow> \<not> fst (centroidHorizontal obs c') < 0 \<longrightarrow>
             (case centroidDistance A obs ga gz c' of None \<Rightarrow> True | Some d' \<Rightarrow> d < d')"
    and "\<not> fst (centroidHorizontal obs c) < 0"
    and "centroidDistance A obs ga gz c = Some d"
    and "(c \<in> set CONS \<and> d < b) \<or> (a, b) = (abbr c, d)"
  shows "closestLoop A CONS obs ga gz (a, b) = (abbr c, d)"
  using assms
proof (induction CONS arbitrary: a b)
  case Nil
  then show ?case by simp
next
  case (Cons e es)
  have far: "\<forall>c' \<in> set es. c' \<noteq> c \<longrightarrow> \<not> fst (centroidHorizontal obs c') < 0 \<longrightarrow>
             (case centroidDistance A obs ga gz c' of None \<Rightarrow> True | Some d' \<Rightarrow> d < d')"
    using Cons.prems(1) by simp
  note ih = Cons.IH [OF far Cons.prems(2) Cons.prems(3)]
  show ?case
  proof (cases "e = c")
    case True
    have "closestLoop A (e # es) obs ga gz (a, b) = closestLoop A es obs ga gz (abbr c, d)"
      using True Cons.prems(2) Cons.prems(3) Cons.prems(4)
      by (auto simp: centroidHorizontal_def centroidDistance_def Let_def
          split: prod.splits option.splits)
    then show ?thesis using ih [where a = "abbr c" and b = d] by simp
  next
    case False
    show ?thesis
    proof (cases "fst (centroidHorizontal obs e) < 0")
      case True
      then have "closestLoop A (e # es) obs ga gz (a, b) = closestLoop A es obs ga gz (a, b)"
        by (auto simp: centroidHorizontal_def Let_def split: prod.splits)
      moreover have "(c \<in> set es \<and> d < b) \<or> (a, b) = (abbr c, d)"
        using Cons.prems(4) False by auto
      ultimately show ?thesis using ih [where a = a and b = b] by simp
    next
      case above: False
      show ?thesis
      proof (cases "centroidDistance A obs ga gz e")
        case None
        then have "closestLoop A (e # es) obs ga gz (a, b) = closestLoop A es obs ga gz (a, b)"
          using above
          by (auto simp: centroidHorizontal_def centroidDistance_def Let_def
              split: prod.splits option.splits)
        moreover have "(c \<in> set es \<and> d < b) \<or> (a, b) = (abbr c, d)"
          using Cons.prems(4) False by auto
        ultimately show ?thesis using ih [where a = a and b = b] by simp
      next
        case (Some d')
        have lt: "d < d'" using Cons.prems(1) False above Some by simp
        show ?thesis
        proof (cases "d' < b")
          case True
          have "closestLoop A (e # es) obs ga gz (a, b) = closestLoop A es obs ga gz (abbr e, d')"
            using above Some True
            by (auto simp: centroidHorizontal_def centroidDistance_def Let_def
                split: prod.splits option.splits)
          moreover have "(c \<in> set es \<and> d < d') \<or> (abbr e, d') = (abbr c, d)"
            using Cons.prems(4) False lt True by auto
          ultimately show ?thesis using ih [where a = "abbr e" and b = d'] by simp
        next
          case nb: False
          have "closestLoop A (e # es) obs ga gz (a, b) = closestLoop A es obs ga gz (a, b)"
            using above Some nb
            by (auto simp: centroidHorizontal_def centroidDistance_def Let_def
                split: prod.splits option.splits)
          moreover have "(c \<in> set es \<and> d < b) \<or> (a, b) = (abbr c, d)"
            using Cons.prems(4) False by auto
          ultimately show ?thesis using ih [where a = a and b = b] by simp
        qed
      qed
    qed
  qed
qed

lemma updateGaze_candidate:
  "updateGaze A CONS t g =
     (case gazeCandidate A CONS t g of
        None \<Rightarrow> g
      | Some a \<Rightarrow>
          if a \<noteq> currentGazeConstellation g then
            (if a = '''' then clearGaze g
             else g\<lparr>currentGazeConstellation := a, gazeHoldTime := 0\<rparr>)
          else if a \<noteq> '''' then
            (if GAZE_HOLD_DELAY \<le> rnd A (gazeHoldTime g + deltaTime t)
             then setHighlightedConstellation a (g\<lparr>gazeHoldTime := rnd A (gazeHoldTime g + deltaTime t)\<rparr>)
             else g\<lparr>gazeHoldTime := rnd A (gazeHoldTime g + deltaTime t)\<rparr>)
          else g)"
  by (auto simp: updateGaze_def gazeCandidate_def Let_def clearGaze_def split: option.splits prod.splits)

lemma updateGaze_early_return:
  "gazeDirection t g = None \<Longrightarrow> updateGaze A CONS t g = g"
  by (simp add: updateGaze_def)

lemma updateGaze_no_candidate:
  "gazeCandidate A CONS t g = Some '''' \<Longrightarrow> updateGaze A CONS t g = clearGaze g"
  by (auto simp: updateGaze_candidate clearGaze_def)

lemma gazeDirection_camera:
  "camera g' = camera g \<Longrightarrow> gazeDirection t g' = gazeDirection t g"
  by (simp add: gazeDirection_def)

lemma gazeCandidate_camera:
  "camera g' = camera g \<Longrightarrow> gazeCandidate A CONS t g' = gazeCandidate A CONS t g"
  by (simp add: gazeCandidate_def gazeDirection_def)

lemma clearGaze_camera: "camera (clearGaze g) = camera g"
  by (simp add: clearGaze_def setHighlightedConstellation_def Let_def)

lemma updateGaze_camera: "camera (updateGaze A CONS t g) = camera g"
  by (simp add: updateGaze_candidate clearGaze_camera setHighlightedConstellation_def split: option.splits)

lemma updateGaze_matched:
  assumes "gazeCandidate A CONS t g = Some a" "a \<noteq> ''''" "currentGazeConstellation g = a"
  shows "currentGazeConstellation (updateGaze A CONS t g) = a"
    and "gazeHoldTime (updateGaze A CONS t g) = rnd A (gazeHoldTime g + deltaTime t)"
    and "calls (updateGaze A CONS t g) =
           calls g @ (if GAZE_HOLD_DELAY \<le> rnd A (gazeHoldTime g + deltaTime t)
                      then [SetHighlighted a] else [])"
    and "highlightedConstellation (updateGaze A CONS t g) =
           (if GAZE_HOLD_DELAY \<le> rnd A (gazeHoldTime g + deltaTime t)
            then a else highlightedConstellation g)"
  using assms by (simp_all add: updateGaze_candidate setHighlightedConstellation_def)

lemma updateGaze_switch:
  assumes "gazeCandidate A CONS t g = Some b" "b \<noteq> ''''" "currentGazeConstellation g \<noteq> b"
  shows "updateGaze A CONS t g = g\<lparr>currentGazeConstellation := b, gazeHoldTime := 0\<rparr>"
  using assms by (simp add: updateGaze_candidate)

lemma clearGaze_empty: "currentGazeConstellation (clearGaze g) = ''''"
  by (simp add: clearGaze_def setHighlightedConstellation_def Let_def)

lemma clearGaze_idle: "currentGazeConstellation g = '''' \<Longrightarrow> clearGaze g = g"
  by (simp add: clearGaze_def)

lemma init_registers: "onConstellationDeselected (init cameraObj g) \<and> camera (init cameraObj g) \<noteq> None"
  by (simp add: init_def)

text \<open>A tick that points at a region has this region's code as its candidate.\<close>

lemma pointsAt_candidate:
  assumes "pointsAt A CONS t g c"
  shows "gazeCandidate A CONS t g = Some (abbr c)"
proof -
  obtain gazeAlt gazeAz where dir: "gazeDirection t g = Some (gazeAlt, gazeAz)"
    using assms unfolding pointsAt_def by (auto split: option.splits)
  let ?obs = "observer (eng t)"
  have p: "\<not> gazeAlt < - 5 * (pi / 180) \<and> c \<in> set CONS \<and>
          0 \<le> fst (centroidHorizontal ?obs c) \<and>
          (case centroidDistance A ?obs gazeAlt gazeAz c of
             None \<Rightarrow> False
           | Some d \<Rightarrow>
               d < GAZE_THRESHOLD_RAD \<and>
               (\<forall>c' \<in> set CONS.
                  c' \<noteq> c \<longrightarrow> 0 \<le> fst (centroidHorizontal ?obs c') \<longrightarrow>
                  (case centroidDistance A ?obs gazeAlt gazeAz c' of
                     None \<Rightarrow> True
                   | Some d' \<Rightarrow> d < d')))"
    using assms unfolding pointsAt_def dir by (simp only: option.case prod.case simp_thms)
  then have m: "\<not> gazeAlt < - 5 * (pi / 180)" and cin: "c \<in> set CONS"
    and up: "\<not> fst (centroidHorizontal ?obs c) < 0"
    unfolding not_less by blast+
  obtain d where d: "centroidDistance A ?obs gazeAlt gazeAz c = Some d"
    using p by (cases "centroidDistance A ?obs gazeAlt gazeAz c") auto
  have q: "d < GAZE_THRESHOLD_RAD \<and>
               (\<forall>c' \<in> set CONS.
                  c' \<noteq> c \<longrightarrow> 0 \<le> fst (centroidHorizontal ?obs c') \<longrightarrow>
                  (case centroidDistance A ?obs gazeAlt gazeAz c' of
                     None \<Rightarrow> True
                   | Some d' \<Rightarrow> d < d'))"
    using p unfolding d option.case by blast
  then have thr: "d < GAZE_THRESHOLD_RAD" by (rule conjunct1)
  have far: "\<forall>c' \<in> set CONS. c' \<noteq> c \<longrightarrow> \<not> fst (centroidHorizontal ?obs c') < 0 \<longrightarrow>
             (case centroidDistance A ?obs gazeAlt gazeAz c' of None \<Rightarrow> True | Some d' \<Rightarrow> d < d')"
    using conjunct2 [OF q] unfolding not_less by blast
  have st: "(c \<in> set CONS \<and> d < GAZE_THRESHOLD_RAD) \<or> ('''', GAZE_THRESHOLD_RAD) = (abbr c, d)"
    using cin thr by blast
  have "closestLoop A CONS ?obs gazeAlt gazeAz ('''', GAZE_THRESHOLD_RAD) = (abbr c, d)"
    using far up d st by (rule closestLoop_nearest)
  then show ?thesis using m by (simp add: gazeCandidate_def dir)
qed

lemma pointsAt_camera:
  assumes "camera g' = camera g"
  shows "pointsAt A CONS t g' c = pointsAt A CONS t g c"
  unfolding pointsAt_def gazeDirection_camera [OF assms] by (rule refl)

subsection \<open>The gaze matcher: a run of ticks on one region\<close>

lemma confirmations_Cons:
  "confirmations A h (d # ds) =
     (if GAZE_HOLD_DELAY \<le> rnd A (h + d) then 1 else 0) + confirmations A (rnd A (h + d)) ds"
  by (simp add: confirmations_def)

lemma runGaze_matched:
  assumes "a \<noteq> ''''" "currentGazeConstellation g = a"
    and "\<forall>t \<in> set ts. gazeCandidate A CONS t g = Some a"
  shows "currentGazeConstellation (runGaze A CONS ts g) = a
       \<and> gazeHoldTime (runGaze A CONS ts g)
           = last (gazeHoldTime g # holdTimes A (gazeHoldTime g) (map deltaTime ts))
       \<and> calls (runGaze A CONS ts g) =
           calls g @ replicate (confirmations A (gazeHoldTime g) (map deltaTime ts)) (SetHighlighted a)
       \<and> highlightedConstellation (runGaze A CONS ts g) =
           (if confirmations A (gazeHoldTime g) (map deltaTime ts) = 0
            then highlightedConstellation g else a)
       \<and> camera (runGaze A CONS ts g) = camera g"
  using assms
proof (induction ts arbitrary: g)
  case Nil
  then show ?case by (simp add: runGaze_def confirmations_def)
next
  case (Cons t ts)
  let ?g = "updateGaze A CONS t g"
  have c: "gazeCandidate A CONS t g = Some a" using Cons.prems by simp
  note st = updateGaze_matched [OF c Cons.prems(1) Cons.prems(2)]
  have cam: "camera ?g = camera g" by (rule updateGaze_camera)
  have "\<forall>u \<in> set ts. gazeCandidate A CONS u ?g = Some a"
    using Cons.prems(3) gazeCandidate_camera [OF cam] by simp
  from Cons.IH [OF Cons.prems(1) st(1) this]
  have ih: "currentGazeConstellation (runGaze A CONS ts ?g) = a"
    "gazeHoldTime (runGaze A CONS ts ?g)
       = last (gazeHoldTime ?g # holdTimes A (gazeHoldTime ?g) (map deltaTime ts))"
    "calls (runGaze A CONS ts ?g) =
       calls ?g @ replicate (confirmations A (gazeHoldTime ?g) (map deltaTime ts)) (SetHighlighted a)"
    "highlightedConstellation (runGaze A CONS ts ?g) =
       (if confirmations A (gazeHoldTime ?g) (map deltaTime ts) = 0
        then highlightedConstellation ?g else a)"
    "camera (runGaze A CONS ts ?g) = camera ?g"
    by simp_all
  have r: "runGaze A CONS (t # ts) g = runGaze A CONS ts ?g" by (simp add: runGaze_def)
  show ?case unfolding r ih st cam
    by (simp add: confirmations_Cons replicate_add [symmetric] del: replicate_add)
qed

lemma holdTimes_last_mem:
  "ds \<noteq> [] \<Longrightarrow> last (h # holdTimes A h ds) \<in> set (holdTimes A h ds)"
  by (cases ds) simp_all

lemma confirmations_pos:
  "GAZE_HOLD_DELAY \<le> last (h # holdTimes A h ds) \<Longrightarrow> ds \<noteq> [] \<Longrightarrow> 0 < confirmations A h ds"
  unfolding confirmations_def using holdTimes_last_mem [of ds h A]
  by (auto simp: filter_empty_conv)

lemma confirmations_zero:
  "\<forall>v \<in> set (holdTimes A h ds). v < GAZE_HOLD_DELAY \<Longrightarrow> confirmations A h ds = 0"
  unfolding confirmations_def by (auto simp: filter_empty_conv)

lemma holdTimes_exact_last:
  "last (h # holdTimes exactArith h ds) = h + sum_list ds"
proof (induction ds arbitrary: h)
  case Nil
  show ?case by simp
next
  case (Cons d ds)
  have "rnd exactArith (h + d) = h + d" by (simp add: exactArith_def)
  then show ?case using Cons [of "h + d"] by (simp add: add.assoc)
qed

subsection \<open>The concrete scene, evaluated\<close>

lemma sceneObserver:
  "observer sceneEngine =
     \<lparr>latitude = 0, longitude = 0, lstRadians = 0, headingDeg = 0, timestamp = 0\<rparr>"
  "initialized sceneEngine"
  by (simp_all add: sceneEngine_def setObserverLocation_def initialEngine_def)

lemma sceneCamera: "camera sceneGaze = Some 0"
  by (simp add: sceneGaze_def init_def)

lemma sceneGaze_fields:
  "currentGazeConstellation sceneGaze = ''''" "gazeHoldTime sceneGaze = 0"
  "highlightedConstellation sceneGaze = ''''" "calls sceneGaze = []"
  "onConstellationDeselected sceneGaze"
  by (simp_all add: sceneGaze_def init_def initialGaze_def)

lemma scene_eng:
  "eng (lookNorth dt) = sceneEngine" "eng (lookEast dt) = sceneEngine"
  "eng (lookDown dt) = sceneEngine"
  by (simp_all add: lookNorth_def lookEast_def lookDown_def)

lemma scene_deltaTime:
  "deltaTime (lookNorth dt) = dt" "deltaTime (lookEast dt) = dt" "deltaTime (lookDown dt) = dt"
  by (simp_all add: lookNorth_def lookEast_def lookDown_def)

lemma gazeDirection_lookNorth:
  "camera g \<noteq> None \<Longrightarrow> gazeDirection (lookNorth dt) g = Some (0, 0)"
  by (simp add: gazeDirection_def lookNorth_def sceneObserver atan2_def)

lemma gazeDirection_lookEast:
  "camera g \<noteq> None \<Longrightarrow> gazeDirection (lookEast dt) g = Some (0, pi / 2)"
  by (simp add: gazeDirection_def lookEast_def sceneObserver atan2_def)

lemma gazeDirection_lookDown:
  "camera g \<noteq> None \<Longrightarrow> gazeDirection (lookDown dt) g = Some (- (pi / 2), 0)"
  by (simp add: gazeDirection_def lookDown_def sceneObserver atan2_def)

lemma northRegion_horizontal:
  "centroidHorizontal (observer sceneEngine) northRegion = (0, Some 0)"
  by (simp add: centroidHorizontal_def sceneObserver northRegion_def
      equatorialToHorizontal_def clampedQuotient_def)

lemma eastRegion_horizontal:
  "centroidHorizontal (observer sceneEngine) eastRegion = (0, Some (pi / 2))"
  by (simp add: centroidHorizontal_def sceneObserver eastRegion_def
      equatorialToHorizontal_def clampedQuotient_def)

lemma nadirRegion_horizontal:
  "centroidHorizontal (observer sceneEngine) nadirRegion = (- (pi / 2), Some 0)"
  by (simp add: centroidHorizontal_def sceneObserver nadirRegion_def equatorialToHorizontal_def)

lemma threshold_pos: "0 < GAZE_THRESHOLD_RAD" "GAZE_THRESHOLD_RAD < pi / 2"
  by (simp_all add: GAZE_THRESHOLD_RAD_def)

lemma margin_facts:
  "\<not> (0 :: real) < - 5 * (pi / 180)" "- (pi / 2) < - 5 * (pi / 180)"
  using pi_gt_zero by linarith+

lemma pi_not_le_zero: "(pi \<le> 0) = False"
  using pi_gt_zero by (simp only: not_le [symmetric] simp_thms)

lemma scene_distances:
  "centroidDistance exactArith (observer sceneEngine) 0 0 northRegion = Some 0"
  "centroidDistance exactArith (observer sceneEngine) 0 0 eastRegion = Some (pi / 2)"
  "centroidDistance exactArith (observer sceneEngine) 0 (pi / 2) eastRegion = Some 0"
  "centroidDistance exactArith (observer sceneEngine) 0 (pi / 2) northRegion = Some (pi / 2)"
  by (simp_all add: centroidDistance_def northRegion_horizontal eastRegion_horizontal
      angularDistanceAltAz_same dist_north_east dist_east_north)

lemma scene_regions_differ: "northRegion \<noteq> eastRegion" "eastRegion \<noteq> northRegion"
  by (simp_all add: northRegion_def eastRegion_def)

lemma scene_abbr: "abbr northRegion = ''UMI''" "abbr eastRegion = ''AQL''"
  by (simp_all add: northRegion_def eastRegion_def)

lemma pointsAt_north:
  assumes "camera g \<noteq> None"
  shows "pointsAt exactArith sceneRegions (lookNorth dt) g northRegion"
  unfolding pointsAt_def gazeDirection_lookNorth [OF assms] scene_eng
  using threshold_pos(1) pi_gt_zero
  by (simp add: sceneRegions_def scene_distances northRegion_horizontal eastRegion_horizontal
      scene_regions_differ margin_facts pi_not_le_zero)

lemma pointsAt_east:
  assumes "camera g \<noteq> None"
  shows "pointsAt exactArith sceneRegions (lookEast dt) g eastRegion"
  unfolding pointsAt_def gazeDirection_lookEast [OF assms] scene_eng
  using threshold_pos(1) pi_gt_zero
  by (simp add: sceneRegions_def scene_distances northRegion_horizontal eastRegion_horizontal
      scene_regions_differ margin_facts pi_not_le_zero)

lemma candidate_north:
  "camera g \<noteq> None \<Longrightarrow> gazeCandidate exactArith sceneRegions (lookNorth dt) g = Some ''UMI''"
  using pointsAt_candidate [OF pointsAt_north, of g dt] by (simp add: scene_abbr)

lemma candidate_east:
  "camera g \<noteq> None \<Longrightarrow> gazeCandidate exactArith sceneRegions (lookEast dt) g = Some ''AQL''"
  using pointsAt_candidate [OF pointsAt_east, of g dt] by (simp add: scene_abbr)

lemma candidate_down:
  "camera g \<noteq> None \<Longrightarrow> gazeCandidate A CONS (lookDown dt) g = Some ''''"
  by (simp add: gazeCandidate_def gazeDirection_lookDown margin_facts del: closestLoop.simps)

lemma matchedNorth:
  "updateGaze exactArith sceneRegions (lookNorth dt) sceneGaze =
     sceneGaze\<lparr>currentGazeConstellation := ''UMI'', gazeHoldTime := 0\<rparr>"
  by (rule updateGaze_switch) (simp_all add: candidate_north sceneCamera sceneGaze_fields)

lemma runNorth:
  "runGaze exactArith sceneRegions (lookNorth d0 # ts) sceneGaze =
     runGaze exactArith sceneRegions ts
       (sceneGaze\<lparr>currentGazeConstellation := ''UMI'', gazeHoldTime := 0\<rparr>)"
  by (simp add: runGaze_def matchedNorth)

subsection \<open>No candidate\<close>

text \<open>
  C2: on a tick that computes a gaze direction, there is no candidate when the gaze
  altitude is below the margin of \<open>-5\<close> degrees, whatever the distances; and otherwise
  when every region whose centroid altitude is at least \<open>0\<close> has a distance from the gaze
  direction that is not below the threshold of \<open>8\<close> degrees (in particular when it exceeds
  the threshold, and also when it is NaN). In both cases the tick is \<^verbatim>\<open>clearGaze\<close>.
  Regions whose centroid is below the horizon are skipped: the loop gives the same result
  on the catalog without them, whatever their distances. This holds in every arithmetic.
\<close>

theorem gaze_no_candidate:
  assumes "gazeDirection t g = Some (gazeAlt, gazeAz)"
  shows "(gazeAlt < - 5 * (pi / 180) \<longrightarrow>
            gazeCandidate A CONS t g = Some '''' \<and> updateGaze A CONS t g = clearGaze g)
       \<and> (\<not> gazeAlt < - 5 * (pi / 180) \<and>
           (\<forall>c \<in> set CONS. 0 \<le> fst (centroidHorizontal (observer (eng t)) c) \<longrightarrow>
              (case centroidDistance A (observer (eng t)) gazeAlt gazeAz c of
                 None \<Rightarrow> True | Some d \<Rightarrow> GAZE_THRESHOLD_RAD \<le> d)) \<longrightarrow>
            gazeCandidate A CONS t g = Some '''' \<and> updateGaze A CONS t g = clearGaze g)
       \<and> closestLoop A CONS (observer (eng t)) gazeAlt gazeAz acc =
           closestLoop A (filter (\<lambda>c. 0 \<le> fst (centroidHorizontal (observer (eng t)) c)) CONS)
             (observer (eng t)) gazeAlt gazeAz acc"
proof -
  let ?obs = "observer (eng t)"
  have below: "gazeCandidate A CONS t g = Some ''''" if "gazeAlt < - 5 * (pi / 180)"
    using that assms by (simp add: gazeCandidate_def)
  have far: "gazeCandidate A CONS t g = Some ''''"
    if m: "\<not> gazeAlt < - 5 * (pi / 180)"
      and f: "\<forall>c \<in> set CONS. 0 \<le> fst (centroidHorizontal ?obs c) \<longrightarrow>
              (case centroidDistance A ?obs gazeAlt gazeAz c of
                 None \<Rightarrow> True | Some d \<Rightarrow> GAZE_THRESHOLD_RAD \<le> d)"
  proof -
    have "\<forall>c \<in> set CONS. \<not> fst (centroidHorizontal ?obs c) < 0 \<longrightarrow>
            (case centroidDistance A ?obs gazeAlt gazeAz c of
               None \<Rightarrow> True | Some d \<Rightarrow> \<not> d < GAZE_THRESHOLD_RAD)"
      using f by (auto split: option.splits)
    then have "closestLoop A CONS ?obs gazeAlt gazeAz ('''', GAZE_THRESHOLD_RAD)
               = ('''', GAZE_THRESHOLD_RAD)"
      by (rule closestLoop_none)
    then show ?thesis using m assms by (simp add: gazeCandidate_def)
  qed
  have skip: "closestLoop A CONS ?obs gazeAlt gazeAz acc =
      closestLoop A (filter (\<lambda>c. 0 \<le> fst (centroidHorizontal ?obs c)) CONS) ?obs gazeAlt gazeAz acc"
    using closestLoop_skip [of A CONS ?obs gazeAlt gazeAz acc] by (simp add: not_less)
  show ?thesis using below far skip updateGaze_no_candidate by blast
qed

theorem gaze_no_candidate_witness:
  "gazeDirection (lookDown 0.1) sceneGaze = Some (- (pi / 2), 0)
   \<and> - (pi / 2) < - 5 * (pi / 180)
   \<and> gazeCandidate exactArith [nadirRegion, northRegion] (lookDown 0.1) sceneGaze = Some ''''
   \<and> gazeDirection (lookEast 0.1) sceneGaze = Some (0, pi / 2)
   \<and> \<not> (0 :: real) < - 5 * (pi / 180)
   \<and> fst (centroidHorizontal (observer sceneEngine) nadirRegion) < 0
   \<and> centroidDistance exactArith (observer sceneEngine) 0 (pi / 2) northRegion = Some (pi / 2)
   \<and> GAZE_THRESHOLD_RAD \<le> pi / 2
   \<and> gazeCandidate exactArith [nadirRegion, northRegion] (lookEast 0.1) sceneGaze = Some ''''
   \<and> updateGaze exactArith [nadirRegion, northRegion] (lookEast 0.1) sceneGaze
       = clearGaze sceneGaze"
proof -
  have cam: "camera sceneGaze \<noteq> None" by (simp add: sceneCamera)
  have d: "gazeDirection (lookDown 0.1) sceneGaze = Some (- (pi / 2), 0)"
    using cam by (rule gazeDirection_lookDown)
  have e: "gazeDirection (lookEast 0.1) sceneGaze = Some (0, pi / 2)"
    using cam by (rule gazeDirection_lookEast)
  have thr: "GAZE_THRESHOLD_RAD \<le> pi / 2" using threshold_pos by simp
  have far: "\<forall>c \<in> set [nadirRegion, northRegion].
      0 \<le> fst (centroidHorizontal (observer (eng (lookEast 0.1))) c) \<longrightarrow>
        (case centroidDistance exactArith (observer (eng (lookEast 0.1))) 0 (pi / 2) c of
           None \<Rightarrow> True | Some d \<Rightarrow> GAZE_THRESHOLD_RAD \<le> d)"
    using thr
    by (simp add: scene_eng nadirRegion_horizontal scene_distances pi_not_le_zero)
  have low: "fst (centroidHorizontal (observer sceneEngine) nadirRegion) < 0"
    by (simp add: nadirRegion_horizontal)
  show ?thesis
    using gaze_no_candidate [OF d, of exactArith "[nadirRegion, northRegion]"]
      gaze_no_candidate [OF e, of exactArith "[nadirRegion, northRegion]"]
      d e far thr low margin_facts scene_distances(4)
    by blast
qed

subsection \<open>Deselection\<close>

text \<open>
  C3: on a tick without candidate, if a region was matched, the matched code becomes
  empty, the dwell \<open>0\<close> and the highlight empty, and the calls made are one call of the
  highlight setter and, the callback being registered (as \<^verbatim>\<open>init\<close> does), one call of
  the deselect callback; if no region was matched the state is unchanged and nothing is
  called. So a further tick \<open>t2\<close> without candidate changes nothing and calls nothing.
\<close>

theorem gaze_deselect_once:
  assumes "gazeCandidate A CONS t g = Some ''''"
  shows "(currentGazeConstellation g \<noteq> '''' \<longrightarrow>
            currentGazeConstellation (updateGaze A CONS t g) = ''''
          \<and> gazeHoldTime (updateGaze A CONS t g) = 0
          \<and> highlightedConstellation (updateGaze A CONS t g) = ''''
          \<and> calls (updateGaze A CONS t g) =
              calls g @ [SetHighlighted ''''] @
                (if onConstellationDeselected g then [Deselected] else []))
       \<and> (currentGazeConstellation g = '''' \<longrightarrow> updateGaze A CONS t g = g)
       \<and> (gazeCandidate A CONS t2 (updateGaze A CONS t g) = Some '''' \<longrightarrow>
            updateGaze A CONS t2 (updateGaze A CONS t g) = updateGaze A CONS t g)"
proof -
  have u: "updateGaze A CONS t g = clearGaze g" using assms by (rule updateGaze_no_candidate)
  have a: "currentGazeConstellation g \<noteq> '''' \<longrightarrow>
            currentGazeConstellation (clearGaze g) = ''''
          \<and> gazeHoldTime (clearGaze g) = 0
          \<and> highlightedConstellation (clearGaze g) = ''''
          \<and> calls (clearGaze g) =
              calls g @ [SetHighlighted ''''] @
                (if onConstellationDeselected g then [Deselected] else [])"
    by (simp add: clearGaze_def setHighlightedConstellation_def Let_def)
  have b: "currentGazeConstellation g = '''' \<longrightarrow> clearGaze g = g"
    by (simp add: clearGaze_idle)
  have c: "gazeCandidate A CONS t2 (clearGaze g) = Some '''' \<longrightarrow>
            updateGaze A CONS t2 (clearGaze g) = clearGaze g"
    using updateGaze_no_candidate [of A CONS t2 "clearGaze g"] clearGaze_idle [OF clearGaze_empty]
    by simp
  show ?thesis unfolding u using a b c by blast
qed

theorem gaze_deselect_once_witness:
  "gazeCandidate exactArith sceneRegions (lookDown 0.1)
       (updateGaze exactArith sceneRegions (lookNorth 0.1) sceneGaze)
     = Some ''''
   \<and> currentGazeConstellation (updateGaze exactArith sceneRegions (lookNorth 0.1) sceneGaze)
       = ''UMI''
   \<and> currentGazeConstellation
       (updateGaze exactArith sceneRegions (lookDown 0.1)
          (updateGaze exactArith sceneRegions (lookNorth 0.1) sceneGaze))
       = ''''
   \<and> calls
       (updateGaze exactArith sceneRegions (lookDown 0.1)
          (updateGaze exactArith sceneRegions (lookNorth 0.1) sceneGaze))
       = [SetHighlighted '''', Deselected]
   \<and> updateGaze exactArith sceneRegions (lookDown 0.2)
        (updateGaze exactArith sceneRegions (lookDown 0.1)
           (updateGaze exactArith sceneRegions (lookNorth 0.1) sceneGaze))
       = updateGaze exactArith sceneRegions (lookDown 0.1)
           (updateGaze exactArith sceneRegions (lookNorth 0.1) sceneGaze)"
proof -
  let ?g = "updateGaze exactArith sceneRegions (lookNorth 0.1) sceneGaze"
  have cam: "camera ?g \<noteq> None" by (simp add: updateGaze_camera sceneCamera)
  have cam2: "camera (updateGaze exactArith sceneRegions (lookDown 0.1) ?g) \<noteq> None"
    by (simp add: updateGaze_camera sceneCamera)
  have c1: "gazeCandidate exactArith sceneRegions (lookDown 0.1) ?g = Some ''''"
    using cam by (rule candidate_down)
  have c2: "gazeCandidate exactArith sceneRegions (lookDown 0.2)
              (updateGaze exactArith sceneRegions (lookDown 0.1) ?g) = Some ''''"
    using cam2 by (rule candidate_down)
  have cur: "currentGazeConstellation ?g = ''UMI''" by (simp add: matchedNorth)
  have f: "calls ?g = []" "onConstellationDeselected ?g"
    by (simp_all add: matchedNorth sceneGaze_fields)
  show ?thesis
    using gaze_deselect_once [OF c1, of "lookDown 0.2"] c1 c2 cur f by simp
qed

subsection \<open>Dwell and confirmation\<close>

text \<open>
  C1, as stated: when the elapsed times of the ticks matched to one region sum to at least
  \<open>0.5\<close> s the match is confirmed, and the confirmation is triggered exactly once per match
  episode. Looking at the region on the northern horizon for two ticks of \<open>0.375\<close> s, which
  sum to \<open>0.75\<close> s, nothing is called and nothing is highlighted: the tick that first matches
  the region sets the dwell to \<open>0\<close> and does not add its elapsed time. Looking at it for three
  ticks, the second and the third of \<open>0.5\<close> s, the highlight setter is called on the second
  tick and again on the third.
\<close>

theorem gaze_confirmation_counterexample:
  "pointsAt exactArith sceneRegions (lookNorth 0.375) sceneGaze northRegion
   \<and> GAZE_HOLD_DELAY \<le> deltaTime (lookNorth 0.375) + deltaTime (lookNorth 0.375)
   \<and> currentGazeConstellation
       (runGaze exactArith sceneRegions [lookNorth 0.375, lookNorth 0.375] sceneGaze) = ''UMI''
   \<and> calls (runGaze exactArith sceneRegions [lookNorth 0.375, lookNorth 0.375] sceneGaze) = []
   \<and> highlightedConstellation
       (runGaze exactArith sceneRegions [lookNorth 0.375, lookNorth 0.375] sceneGaze) = ''''
   \<and> pointsAt exactArith sceneRegions (lookNorth 0.25) sceneGaze northRegion
   \<and> pointsAt exactArith sceneRegions (lookNorth 0.5) sceneGaze northRegion
   \<and> currentGazeConstellation
       (runGaze exactArith sceneRegions [lookNorth 0.25, lookNorth 0.5, lookNorth 0.5] sceneGaze)
       = ''UMI''
   \<and> calls (runGaze exactArith sceneRegions [lookNorth 0.25, lookNorth 0.5, lookNorth 0.5] sceneGaze)
       = [SetHighlighted ''UMI'', SetHighlighted ''UMI'']
   \<and> length (filter (\<lambda>c. c = SetHighlighted ''UMI'')
        (calls (runGaze exactArith sceneRegions [lookNorth 0.25, lookNorth 0.5, lookNorth 0.5]
                  sceneGaze)))
       \<noteq> 1"
proof -
  let ?g0 = "sceneGaze\<lparr>currentGazeConstellation := ''UMI'', gazeHoldTime := 0\<rparr>"
  have cam: "camera sceneGaze \<noteq> None" "camera ?g0 \<noteq> None" by (simp_all add: sceneCamera)
  have p: "\<And>dt. pointsAt exactArith sceneRegions (lookNorth dt) sceneGaze northRegion"
    using cam(1) by (rule pointsAt_north)
  have c: "\<And>dt. gazeCandidate exactArith sceneRegions (lookNorth dt) ?g0 = Some ''UMI''"
    using cam(2) by (rule candidate_north)
  have "\<forall>t \<in> set [lookNorth 0.375]. gazeCandidate exactArith sceneRegions t ?g0 = Some ''UMI''"
    using c by simp
  from runGaze_matched [OF _ _ this]
  have one: "currentGazeConstellation (runGaze exactArith sceneRegions [lookNorth 0.375] ?g0) = ''UMI''"
    "calls (runGaze exactArith sceneRegions [lookNorth 0.375] ?g0) =
       replicate (confirmations exactArith 0 [0.375]) (SetHighlighted ''UMI'')"
    "highlightedConstellation (runGaze exactArith sceneRegions [lookNorth 0.375] ?g0) =
       (if confirmations exactArith 0 [0.375] = 0 then '''' else ''UMI'')"
    by (simp_all add: sceneGaze_fields scene_deltaTime)
  have k1: "confirmations exactArith 0 [0.375] = 0"
    by (simp add: confirmations_def GAZE_HOLD_DELAY_def exactArith_def)
  have "\<forall>t \<in> set [lookNorth 0.5, lookNorth 0.5].
          gazeCandidate exactArith sceneRegions t ?g0 = Some ''UMI''"
    using c by simp
  from runGaze_matched [OF _ _ this]
  have two: "currentGazeConstellation
        (runGaze exactArith sceneRegions [lookNorth 0.5, lookNorth 0.5] ?g0) = ''UMI''"
    "calls (runGaze exactArith sceneRegions [lookNorth 0.5, lookNorth 0.5] ?g0) =
       replicate (confirmations exactArith 0 [0.5, 0.5]) (SetHighlighted ''UMI'')"
    by (simp_all add: sceneGaze_fields scene_deltaTime)
  have k2: "confirmations exactArith 0 [0.5, 0.5] = 2"
    by (simp add: confirmations_def GAZE_HOLD_DELAY_def exactArith_def)
  have s: "GAZE_HOLD_DELAY \<le> deltaTime (lookNorth 0.375) + deltaTime (lookNorth 0.375)"
    by (simp add: scene_deltaTime GAZE_HOLD_DELAY_def)
  show ?thesis using p s one two k1 k2 by (simp add: runNorth numeral_2_eq_2)
qed

text \<open>
  C1, amended. An episode: every tick of \<open>t0 # ts\<close> points at the region \<open>c\<close> (it is the
  nearest region whose centroid is not below the horizon, and it is within the threshold),
  which was not the matched region before \<open>t0\<close>. Pointing at a region depends on the
  controller's state through its camera only, which no tick changes. Then \<open>c\<close> is matched;
  the dwell is \<open>0\<close> after \<open>t0\<close>, and each tick of \<open>ts\<close> adds its elapsed time to it with the
  addition of the arithmetic, so that in exact arithmetic the dwell is the sum of the
  elapsed times of \<open>ts\<close>. The highlight setter is called with \<open>c\<close> on every tick of \<open>ts\<close>
  after which the dwell is at least \<open>0.5\<close> s, and nothing else is called; the highlight is
  \<open>c\<close> from the first such tick on, so the repeated calls do not change it. If the dwell is
  at least \<open>0.5\<close> s at the end, there was such a tick and the highlight is \<open>c\<close>. If the dwell
  stayed below \<open>0.5\<close> s and the next tick \<open>tB\<close> points at a region \<open>cB\<close> with another code,
  then \<open>cB\<close> is matched with dwell \<open>0\<close>, and over the whole episode nothing was called and
  the highlight is the one before the episode.
\<close>

theorem gaze_dwell_confirmation:
  assumes "abbr c \<noteq> ''''" "currentGazeConstellation g \<noteq> abbr c"
    and "\<forall>t \<in> set (t0 # ts). pointsAt A CONS t g c"
  shows "currentGazeConstellation (runGaze A CONS (t0 # ts) g) = abbr c
     \<and> gazeHoldTime (runGaze A CONS (t0 # ts) g) = last (0 # holdTimes A 0 (map deltaTime ts))
     \<and> last (0 # holdTimes exactArith 0 (map deltaTime ts)) = sum_list (map deltaTime ts)
     \<and> calls (runGaze A CONS (t0 # ts) g) =
         calls g @ replicate (confirmations A 0 (map deltaTime ts)) (SetHighlighted (abbr c))
     \<and> highlightedConstellation (runGaze A CONS (t0 # ts) g) =
         (if confirmations A 0 (map deltaTime ts) = 0 then highlightedConstellation g else abbr c)
     \<and> (GAZE_HOLD_DELAY \<le> gazeHoldTime (runGaze A CONS (t0 # ts) g) \<longrightarrow>
          0 < confirmations A 0 (map deltaTime ts)
        \<and> highlightedConstellation (runGaze A CONS (t0 # ts) g) = abbr c)
     \<and> ((\<forall>v \<in> set (holdTimes A 0 (map deltaTime ts)). v < GAZE_HOLD_DELAY)
        \<and> pointsAt A CONS tB g cB \<and> abbr cB \<noteq> abbr c \<and> abbr cB \<noteq> '''' \<longrightarrow>
          currentGazeConstellation (updateGaze A CONS tB (runGaze A CONS (t0 # ts) g)) = abbr cB
        \<and> gazeHoldTime (updateGaze A CONS tB (runGaze A CONS (t0 # ts) g)) = 0
        \<and> calls (updateGaze A CONS tB (runGaze A CONS (t0 # ts) g)) = calls g
        \<and> highlightedConstellation (updateGaze A CONS tB (runGaze A CONS (t0 # ts) g))
            = highlightedConstellation g)"
proof -
  let ?a = "abbr c"
  let ?g0 = "g\<lparr>currentGazeConstellation := ?a, gazeHoldTime := 0\<rparr>"
  let ?ds = "map deltaTime ts"
  let ?r = "runGaze A CONS (t0 # ts) g"
  have cand: "\<forall>t \<in> set (t0 # ts). gazeCandidate A CONS t g = Some ?a"
    using assms(3) pointsAt_candidate by blast
  have c0: "gazeCandidate A CONS t0 g = Some ?a" using cand by simp
  have first: "updateGaze A CONS t0 g = ?g0"
    using c0 assms(1) assms(2) by (intro updateGaze_switch) auto
  have r: "?r = runGaze A CONS ts ?g0" by (simp add: runGaze_def first)
  have "\<forall>t \<in> set ts. gazeCandidate A CONS t ?g0 = Some ?a"
    using cand gazeCandidate_camera [of ?g0 g] by simp
  from runGaze_matched [OF assms(1) _ this]
  have run: "currentGazeConstellation ?r = ?a"
    "gazeHoldTime ?r = last (0 # holdTimes A 0 ?ds)"
    "calls ?r = calls g @ replicate (confirmations A 0 ?ds) (SetHighlighted ?a)"
    "highlightedConstellation ?r =
       (if confirmations A 0 ?ds = 0 then highlightedConstellation g else ?a)"
    "camera ?r = camera g"
    unfolding r by simp_all
  have ex: "last (0 # holdTimes exactArith 0 ?ds) = sum_list ?ds"
    using holdTimes_exact_last [of 0 ?ds] by simp
  have conf: "0 < confirmations A 0 ?ds \<and> highlightedConstellation ?r = ?a"
    if h: "GAZE_HOLD_DELAY \<le> gazeHoldTime ?r"
  proof -
    have "ts \<noteq> []" using h unfolding run(2) by (auto simp: GAZE_HOLD_DELAY_def)
    then have "0 < confirmations A 0 ?ds"
      using h confirmations_pos [of 0 A ?ds] unfolding run(2) by simp
    then show ?thesis using run(4) by simp
  qed
  have sw: "currentGazeConstellation (updateGaze A CONS tB ?r) = abbr cB
        \<and> gazeHoldTime (updateGaze A CONS tB ?r) = 0
        \<and> calls (updateGaze A CONS tB ?r) = calls g
        \<and> highlightedConstellation (updateGaze A CONS tB ?r) = highlightedConstellation g"
    if lt: "\<forall>v \<in> set (holdTimes A 0 ?ds). v < GAZE_HOLD_DELAY"
      and pb: "pointsAt A CONS tB g cB" and b: "abbr cB \<noteq> ?a" "abbr cB \<noteq> ''''"
  proof -
    have z: "confirmations A 0 ?ds = 0" using lt by (rule confirmations_zero)
    have "gazeCandidate A CONS tB g = Some (abbr cB)" using pb by (rule pointsAt_candidate)
    then have "gazeCandidate A CONS tB ?r = Some (abbr cB)"
      using gazeCandidate_camera [OF run(5)] by simp
    then have "updateGaze A CONS tB ?r = ?r\<lparr>currentGazeConstellation := abbr cB, gazeHoldTime := 0\<rparr>"
      using b run(1) by (intro updateGaze_switch) auto
    then show ?thesis using run z by simp
  qed
  show ?thesis using run ex conf sw by blast
qed

theorem gaze_dwell_confirmation_witness:
  "abbr northRegion = ''UMI'' \<and> abbr eastRegion = ''AQL''
   \<and> pointsAt exactArith sceneRegions (lookNorth 0.25) sceneGaze northRegion
   \<and> pointsAt exactArith sceneRegions (lookEast 0.25) sceneGaze eastRegion
   \<and> gazeHoldTime
       (runGaze exactArith sceneRegions [lookNorth 0.25, lookNorth 0.25, lookNorth 0.25] sceneGaze)
       = 0.5
   \<and> highlightedConstellation
       (runGaze exactArith sceneRegions [lookNorth 0.25, lookNorth 0.25, lookNorth 0.25] sceneGaze)
       = ''UMI''
   \<and> calls
       (runGaze exactArith sceneRegions [lookNorth 0.25, lookNorth 0.25, lookNorth 0.25] sceneGaze)
       = [SetHighlighted ''UMI'']
   \<and> gazeHoldTime (runGaze exactArith sceneRegions [lookNorth 0.25, lookNorth 0.25] sceneGaze)
       = 0.25
   \<and> currentGazeConstellation
       (updateGaze exactArith sceneRegions (lookEast 0.25)
          (runGaze exactArith sceneRegions [lookNorth 0.25, lookNorth 0.25] sceneGaze)) = ''AQL''
   \<and> gazeHoldTime
       (updateGaze exactArith sceneRegions (lookEast 0.25)
          (runGaze exactArith sceneRegions [lookNorth 0.25, lookNorth 0.25] sceneGaze)) = 0
   \<and> calls
       (updateGaze exactArith sceneRegions (lookEast 0.25)
          (runGaze exactArith sceneRegions [lookNorth 0.25, lookNorth 0.25] sceneGaze)) = []
   \<and> highlightedConstellation
       (updateGaze exactArith sceneRegions (lookEast 0.25)
          (runGaze exactArith sceneRegions [lookNorth 0.25, lookNorth 0.25] sceneGaze)) = ''''"
proof -
  have cam: "camera sceneGaze \<noteq> None" by (simp add: sceneCamera)
  have north: "pointsAt exactArith sceneRegions (lookNorth 0.25) sceneGaze northRegion"
    using cam by (rule pointsAt_north)
  have east: "pointsAt exactArith sceneRegions (lookEast 0.25) sceneGaze eastRegion"
    using cam by (rule pointsAt_east)
  have ne: "abbr northRegion \<noteq> ''''" "currentGazeConstellation sceneGaze \<noteq> abbr northRegion"
    "abbr eastRegion \<noteq> abbr northRegion" "abbr eastRegion \<noteq> ''''"
    by (simp_all add: sceneGaze_fields scene_abbr)
  have a2: "\<forall>t \<in> set (lookNorth 0.25 # [lookNorth 0.25, lookNorth 0.25]).
      pointsAt exactArith sceneRegions t sceneGaze northRegion"
    using north by simp
  have a1: "\<forall>t \<in> set (lookNorth 0.25 # [lookNorth 0.25]).
      pointsAt exactArith sceneRegions t sceneGaze northRegion"
    using north by simp
  have h2: "holdTimes exactArith 0 [0.25, 0.25] = [0.25, 0.5]"
    by (simp add: exactArith_def)
  have h1: "holdTimes exactArith 0 [0.25] = [0.25]"
    by (simp add: exactArith_def)
  have k2: "confirmations exactArith 0 [0.25, 0.25] = 1"
    unfolding confirmations_def h2 by (simp add: GAZE_HOLD_DELAY_def)
  have k1: "\<forall>v \<in> set (holdTimes exactArith 0 [0.25]). v < GAZE_HOLD_DELAY"
    unfolding h1 by (simp add: GAZE_HOLD_DELAY_def)
  show ?thesis
    using gaze_dwell_confirmation [OF ne(1) ne(2) a2, of "lookEast 0.25" eastRegion]
      gaze_dwell_confirmation [OF ne(1) ne(2) a1, of "lookEast 0.25" eastRegion]
      north east ne k1 k2 h1 h2
    by (simp add: scene_deltaTime sceneGaze_fields scene_abbr)
qed

end
